theory Spec2Isabelle
  imports Complex_Main
begin

section \<open>Arrays, failures and loops\<close>

text \<open>
  The source works on NumPy arrays of double-precision numbers inside numba-compiled
  loops.  Floating-point numbers are modelled by the reals and the complex numbers
  (exact arithmetic), 64-bit integers by \<open>int\<close>.  A two-dimensional array is a list of
  rows.  A read outside an array, which the compiled code does not check, is the failure
  \<open>IndexOutOfBounds\<close>; a negative index counts from the end, as in NumPy.
\<close>

datatype error = IndexOutOfBounds | ZeroDivision | LinAlgError | NotANumber

type_synonym 'a result = "error + 'a"

definition rbind :: "'a result \<Rightarrow> ('a \<Rightarrow> 'b result) \<Rightarrow> 'b result" where
  "rbind r f = (case r of Inl e \<Rightarrow> Inl e | Inr v \<Rightarrow> f v)"

definition wrap_index :: "nat \<Rightarrow> int \<Rightarrow> int" where
  "wrap_index n i = (if i < 0 then i + int n else i)"

definition getitem :: "'a list \<Rightarrow> int \<Rightarrow> 'a result" where
  "getitem xs i =
     (if 0 \<le> wrap_index (length xs) i \<and> wrap_index (length xs) i < int (length xs)
      then Inr (xs ! nat (wrap_index (length xs) i))
      else Inl IndexOutOfBounds)"

definition setitem :: "'a list \<Rightarrow> int \<Rightarrow> 'a \<Rightarrow> 'a list result" where
  "setitem xs i v =
     (if 0 \<le> wrap_index (length xs) i \<and> wrap_index (length xs) i < int (length xs)
      then Inr (xs[nat (wrap_index (length xs) i) := v])
      else Inl IndexOutOfBounds)"

text \<open>\<open>data[i_time, k]\<close> on a two-dimensional array.\<close>

definition getitem2 :: "'a list list \<Rightarrow> int \<Rightarrow> int \<Rightarrow> 'a result" where
  "getitem2 a i k = rbind (getitem a i) (\<lambda>row. getitem row k)"

text \<open>\<open>for i in xrange(...)\<close>: the body runs on each index in turn and a failure ends the loop.\<close>

fun xrange_loop :: "'i list \<Rightarrow> ('i \<Rightarrow> 's \<Rightarrow> 's result) \<Rightarrow> 's \<Rightarrow> 's result" where
  "xrange_loop [] body s = Inr s"
| "xrange_loop (i # is) body s = rbind (body i s) (xrange_loop is body)"

section \<open>Vectors and tensors at one time sample\<close>

record 'a vec3 =
  v0 :: 'a
  v1 :: 'a
  v2 :: 'a

record 'a mat3 =
  e00 :: 'a
  e01 :: 'a
  e02 :: 'a
  e10 :: 'a
  e11 :: 'a
  e12 :: 'a
  e20 :: 'a
  e21 :: 'a
  e22 :: 'a

definition zeros_vec3 :: "nat \<Rightarrow> ('a::zero) vec3 list" where
  "zeros_vec3 n = replicate n \<lparr>v0 = 0, v1 = 0, v2 = 0\<rparr>"

definition zeros_mat3 :: "nat \<Rightarrow> ('a::zero) mat3 list" where
  "zeros_mat3 n = replicate n
     \<lparr>e00 = 0, e01 = 0, e02 = 0, e10 = 0, e11 = 0, e12 = 0, e20 = 0, e21 = 0, e22 = 0\<rparr>"

text \<open>
  \<open>A[i_time, a, b] += x\<close>: the component is named by its update function, for instance
  \<open>iadd LL i_time e01_update x\<close> for \<open>LL[i_time, 0, 1] += x\<close>.
\<close>

definition iadd :: "'r list \<Rightarrow> nat \<Rightarrow> (('a \<Rightarrow> 'a) \<Rightarrow> 'r \<Rightarrow> 'r) \<Rightarrow> ('a::plus) \<Rightarrow> 'r list result" where
  "iadd A i upd x = rbind (getitem A (int i)) (\<lambda>r. setitem A (int i) (upd (\<lambda>old. old + x) r))"

section \<open>The waveform object and the ladder coefficients\<close>

text \<open>
  Modelled from the spec: the class \<open>WaveformModes\<close> is not among the sources.  The
  spec's mode time series exposes the times \<open>t\<close>, the complex array \<open>data\<close> of shape
  \<open>(n_times, n_modes)\<close>, its time-derivative counterpart \<open>data_dot\<close>, the mode index table
  \<open>LM\<close> of \<open>(ell, m)\<close> pairs and the time of the norm's peak.
\<close>

record WaveformModes =
  W_t :: "real list"
  W_data :: "complex list list"
  W_data_dot :: "complex list list"
  W_LM :: "(int \<times> int) list"
  W_max_norm_time :: real

definition n_times :: "WaveformModes \<Rightarrow> nat" where
  "n_times W = length (W_t W)"

text \<open>
  Modelled from the spec: \<open>ladder\<close> is imported from the package \<open>spherical_functions\<close>;
  the spec defines it as \<open>sqrt(max(0, ell(ell+1) - m(m+1)))\<close>.
\<close>

definition ladder :: "int \<Rightarrow> int \<Rightarrow> real" where
  "ladder ell m = sqrt (max 0 (of_int (ell * (ell + 1) - m * (m + 1))))"

section \<open>Ladder-operator terms\<close>

text \<open>
  Every term of the accumulators has the shape
  \<open>np.conjugate(data1[i_time, k1]) * data2[i_time, k2] * c if guard else 0.0 + 0.0j\<close>;
  the array elements are read only when the guard holds.
\<close>

definition bilinear :: "complex list list \<Rightarrow> int \<Rightarrow> complex list list \<Rightarrow> int \<Rightarrow> nat \<Rightarrow> real \<Rightarrow> complex result" where
  "bilinear data1 k1 data2 k2 i_time c =
     rbind (getitem2 data1 (int i_time) k1) (\<lambda>a.
     rbind (getitem2 data2 (int i_time) k2) (\<lambda>b.
     Inr (cnj a * b * of_real c)))"

definition guarded :: "bool \<Rightarrow> complex result \<Rightarrow> complex result" where
  "guarded g r = (if g then r else Inr 0)"

text \<open>First moments, as in \<open>_LdtVector\<close> and \<open>_LVector\<close>.\<close>

definition term_Lp :: "complex list list \<Rightarrow> complex list list \<Rightarrow> nat \<Rightarrow> int \<Rightarrow> int \<Rightarrow> int \<Rightarrow> complex result" where
  "term_Lp data1 data2 i_time i_mode L M =
     guarded (M + 1 \<le> L) (bilinear data1 (i_mode + 1) data2 i_mode i_time (ladder L M))"

definition term_Lm :: "complex list list \<Rightarrow> complex list list \<Rightarrow> nat \<Rightarrow> int \<Rightarrow> int \<Rightarrow> int \<Rightarrow> complex result" where
  "term_Lm data1 data2 i_time i_mode L M =
     guarded (M - 1 \<ge> - L) (bilinear data1 (i_mode - 1) data2 i_mode i_time (ladder L (- M)))"

definition term_Lz :: "complex list list \<Rightarrow> complex list list \<Rightarrow> nat \<Rightarrow> int \<Rightarrow> int \<Rightarrow> int \<Rightarrow> complex result" where
  "term_Lz data1 data2 i_time i_mode L M =
     bilinear data1 i_mode data2 i_mode i_time (of_int M)"

text \<open>Second moments, as in \<open>_LLComparisonMatrix\<close> and \<open>_LLMatrix\<close>.\<close>

definition term_LpLp :: "complex list list \<Rightarrow> complex list list \<Rightarrow> nat \<Rightarrow> int \<Rightarrow> int \<Rightarrow> int \<Rightarrow> complex result" where
  "term_LpLp data1 data2 i_time i_mode L M =
     guarded (M + 2 \<le> L)
       (bilinear data1 (i_mode + 2) data2 i_mode i_time (ladder L (M + 1) * ladder L M))"

definition term_LpLm :: "complex list list \<Rightarrow> complex list list \<Rightarrow> nat \<Rightarrow> int \<Rightarrow> int \<Rightarrow> int \<Rightarrow> complex result" where
  "term_LpLm data1 data2 i_time i_mode L M =
     guarded (M - 1 \<ge> - L)
       (bilinear data1 i_mode data2 i_mode i_time (ladder L (M - 1) * ladder L (- M)))"

definition term_LmLp :: "complex list list \<Rightarrow> complex list list \<Rightarrow> nat \<Rightarrow> int \<Rightarrow> int \<Rightarrow> int \<Rightarrow> complex result" where
  "term_LmLp data1 data2 i_time i_mode L M =
     guarded (M + 1 \<le> L)
       (bilinear data1 i_mode data2 i_mode i_time (ladder L (- (M + 1)) * ladder L M))"

definition term_LmLm :: "complex list list \<Rightarrow> complex list list \<Rightarrow> nat \<Rightarrow> int \<Rightarrow> int \<Rightarrow> int \<Rightarrow> complex result" where
  "term_LmLm data1 data2 i_time i_mode L M =
     guarded (M - 2 \<ge> - L)
       (bilinear data1 (i_mode - 2) data2 i_mode i_time (ladder L (- (M - 1)) * ladder L (- M)))"

definition term_LpLz :: "complex list list \<Rightarrow> complex list list \<Rightarrow> nat \<Rightarrow> int \<Rightarrow> int \<Rightarrow> int \<Rightarrow> complex result" where
  "term_LpLz data1 data2 i_time i_mode L M =
     guarded (M + 1 \<le> L)
       (bilinear data1 (i_mode + 1) data2 i_mode i_time (ladder L M * of_int M))"

definition term_LzLp :: "complex list list \<Rightarrow> complex list list \<Rightarrow> nat \<Rightarrow> int \<Rightarrow> int \<Rightarrow> int \<Rightarrow> complex result" where
  "term_LzLp data1 data2 i_time i_mode L M =
     guarded (M + 1 \<le> L)
       (bilinear data1 (i_mode + 1) data2 i_mode i_time (of_int (M + 1) * ladder L M))"

definition term_LmLz :: "complex list list \<Rightarrow> complex list list \<Rightarrow> nat \<Rightarrow> int \<Rightarrow> int \<Rightarrow> int \<Rightarrow> complex result" where
  "term_LmLz data1 data2 i_time i_mode L M =
     guarded (M - 1 \<ge> - L)
       (bilinear data1 (i_mode - 1) data2 i_mode i_time (ladder L (- M) * of_int M))"

definition term_LzLm :: "complex list list \<Rightarrow> complex list list \<Rightarrow> nat \<Rightarrow> int \<Rightarrow> int \<Rightarrow> int \<Rightarrow> complex result" where
  "term_LzLm data1 data2 i_time i_mode L M =
     guarded (M - 1 \<ge> - L)
       (bilinear data1 (i_mode - 1) data2 i_mode i_time (of_int (M - 1) * ladder L (- M)))"

definition term_LzLz :: "complex list list \<Rightarrow> complex list list \<Rightarrow> nat \<Rightarrow> int \<Rightarrow> int \<Rightarrow> int \<Rightarrow> complex result" where
  "term_LzLz data1 data2 i_time i_mode L M =
     bilinear data1 i_mode data2 i_mode i_time (of_int (M ^ 2))"

text \<open>The nine products of one mode at one time sample, in the \<open>(+,-,z)\<close> basis.\<close>

record pmz_terms =
  LpLp :: complex
  LpLm :: complex
  LmLp :: complex
  LmLm :: complex
  LpLz :: complex
  LzLp :: complex
  LmLz :: complex
  LzLm :: complex
  LzLz :: complex

definition second_moment_terms :: "complex list list \<Rightarrow> complex list list \<Rightarrow> nat \<Rightarrow> int \<Rightarrow> int \<Rightarrow> int \<Rightarrow> pmz_terms result" where
  "second_moment_terms data1 data2 i_time i_mode L M =
     rbind (term_LpLp data1 data2 i_time i_mode L M) (\<lambda>pp.
     rbind (term_LpLm data1 data2 i_time i_mode L M) (\<lambda>pm.
     rbind (term_LmLp data1 data2 i_time i_mode L M) (\<lambda>mp.
     rbind (term_LmLm data1 data2 i_time i_mode L M) (\<lambda>mm.
     rbind (term_LpLz data1 data2 i_time i_mode L M) (\<lambda>pz.
     rbind (term_LzLp data1 data2 i_time i_mode L M) (\<lambda>zp.
     rbind (term_LmLz data1 data2 i_time i_mode L M) (\<lambda>mz.
     rbind (term_LzLm data1 data2 i_time i_mode L M) (\<lambda>zm.
     rbind (term_LzLz data1 data2 i_time i_mode L M) (\<lambda>zz.
     Inr \<lparr>LpLp = pp, LpLm = pm, LmLp = mp, LmLm = mm, LpLz = pz, LzLp = zp,
          LmLz = mz, LzLm = zm, LzLz = zz\<rparr>)))))))))"

text \<open>Conversion into the \<open>(x,y,z)\<close> basis, as written in both tensor accumulators.\<close>

definition LxLx :: "pmz_terms \<Rightarrow> complex" where
  "LxLx T = 0.25 * (LpLp T + LmLm T + LmLp T + LpLm T)"

definition LxLy :: "pmz_terms \<Rightarrow> complex" where
  "LxLy T = - (0.25 * \<i>) * (LpLp T - LmLm T + LmLp T - LpLm T)"

definition LxLz :: "pmz_terms \<Rightarrow> complex" where
  "LxLz T = 0.5 * (LpLz T + LmLz T)"

definition LyLx :: "pmz_terms \<Rightarrow> complex" where
  "LyLx T = - (0.25 * \<i>) * (LpLp T - LmLp T + LpLm T - LmLm T)"

definition LyLy :: "pmz_terms \<Rightarrow> complex" where
  "LyLy T = - 0.25 * (LpLp T - LmLp T - LpLm T + LmLm T)"

definition LyLz :: "pmz_terms \<Rightarrow> complex" where
  "LyLz T = - (0.5 * \<i>) * (LpLz T - LmLz T)"

definition LzLx :: "pmz_terms \<Rightarrow> complex" where
  "LzLx T = 0.5 * (LzLp T + LzLm T)"

definition LzLy :: "pmz_terms \<Rightarrow> complex" where
  "LzLy T = - (0.5 * \<i>) * (LzLp T - LzLm T)"

section \<open>The second-moment accumulators\<close>

text \<open>
  \<open>_LLMatrix\<close>: the loop over the modes, inside it the loop over the time samples; each
  pass adds the real, symmetrized contribution of one mode to the nine entries.
\<close>

definition LLMatrix_step :: "complex list list \<Rightarrow> int \<Rightarrow> int \<Rightarrow> int \<Rightarrow> nat \<Rightarrow> real mat3 list \<Rightarrow> real mat3 list result" where
  "LLMatrix_step dat i_mode L M i_time LL =
     rbind (second_moment_terms dat dat i_time i_mode L M) (\<lambda>T.
     rbind (iadd LL i_time e00_update (Re (LxLx T))) (\<lambda>LL.
     rbind (iadd LL i_time e01_update (Re (LxLy T + LyLx T) / 2)) (\<lambda>LL.
     rbind (iadd LL i_time e02_update (Re (LxLz T + LzLx T) / 2)) (\<lambda>LL.
     rbind (iadd LL i_time e10_update (Re (LyLx T + LxLy T) / 2)) (\<lambda>LL.
     rbind (iadd LL i_time e11_update (Re (LyLy T))) (\<lambda>LL.
     rbind (iadd LL i_time e12_update (Re (LyLz T + LzLy T) / 2)) (\<lambda>LL.
     rbind (iadd LL i_time e20_update (Re (LzLx T + LxLz T) / 2)) (\<lambda>LL.
     rbind (iadd LL i_time e21_update (Re (LzLy T + LyLz T) / 2)) (\<lambda>LL.
     iadd LL i_time e22_update (Re (LzLz T)))))))))))"

definition u_LLMatrix :: "complex list list \<Rightarrow> (int \<times> int) list \<Rightarrow> real mat3 list \<Rightarrow> real mat3 list result" where
  "u_LLMatrix dat lm LL =
     xrange_loop [0..<length lm] (\<lambda>i_mode.
       xrange_loop [0..<length dat]
         (LLMatrix_step dat (int i_mode) (fst (lm ! i_mode)) (snd (lm ! i_mode)))) LL"

definition LLMatrix :: "WaveformModes \<Rightarrow> real mat3 list result" where
  "LLMatrix W = u_LLMatrix (W_data W) (W_LM W) (zeros_mat3 (n_times W))"

text \<open>
  \<open>_LLComparisonMatrix\<close>: the same loops on two series, adding the complex contributions
  without symmetrizing.  The sixth statement of the source adds to entry \<open>[1, 1]\<close>.
\<close>

definition LLComparisonMatrix_step :: "complex list list \<Rightarrow> complex list list \<Rightarrow> int \<Rightarrow> int \<Rightarrow> int \<Rightarrow> nat \<Rightarrow> complex mat3 list \<Rightarrow> complex mat3 list result" where
  "LLComparisonMatrix_step data1 data2 i_mode L M i_time LL =
     rbind (second_moment_terms data1 data2 i_time i_mode L M) (\<lambda>T.
     rbind (iadd LL i_time e00_update (LxLx T)) (\<lambda>LL.
     rbind (iadd LL i_time e01_update (LxLy T)) (\<lambda>LL.
     rbind (iadd LL i_time e02_update (LxLz T)) (\<lambda>LL.
     rbind (iadd LL i_time e10_update (LyLx T)) (\<lambda>LL.
     rbind (iadd LL i_time e11_update (LyLy T)) (\<lambda>LL.
     rbind (iadd LL i_time e11_update (LyLz T)) (\<lambda>LL.
     rbind (iadd LL i_time e20_update (LzLx T)) (\<lambda>LL.
     rbind (iadd LL i_time e21_update (LzLy T)) (\<lambda>LL.
     iadd LL i_time e22_update (LzLz T))))))))))"

definition u_LLComparisonMatrix :: "complex list list \<Rightarrow> complex list list \<Rightarrow> (int \<times> int) list \<Rightarrow> complex mat3 list \<Rightarrow> complex mat3 list result" where
  "u_LLComparisonMatrix data1 data2 lm LL =
     xrange_loop [0..<length lm] (\<lambda>i_mode.
       xrange_loop [0..<length data1]
         (LLComparisonMatrix_step data1 data2 (int i_mode) (fst (lm ! i_mode)) (snd (lm ! i_mode)))) LL"

definition LLComparisonMatrix :: "WaveformModes \<Rightarrow> WaveformModes \<Rightarrow> complex mat3 list result" where
  "LLComparisonMatrix W1 W2 =
     u_LLComparisonMatrix (W_data W1) (W_data W2) (W_LM W1) (zeros_mat3 (n_times W1))"

definition symmetric3 :: "'a mat3 \<Rightarrow> bool" where
  "symmetric3 A \<longleftrightarrow> e01 A = e10 A \<and> e02 A = e20 A \<and> e12 A = e21 A"

section \<open>The first-moment accumulators\<close>

text \<open>\<open>_LdtVector\<close> adds real numbers into a real array.\<close>

definition LdtVector_step :: "complex list list \<Rightarrow> complex list list \<Rightarrow> int \<Rightarrow> int \<Rightarrow> int \<Rightarrow> nat \<Rightarrow> real vec3 list \<Rightarrow> real vec3 list result" where
  "LdtVector_step dat datadot i_mode L M i_time Ldt =
     rbind (term_Lp dat datadot i_time i_mode L M) (\<lambda>Lp.
     rbind (term_Lm dat datadot i_time i_mode L M) (\<lambda>Lm.
     rbind (term_Lz dat datadot i_time i_mode L M) (\<lambda>Lz.
     rbind (iadd Ldt i_time v0_update (0.5 * (Im Lp + Im Lm))) (\<lambda>Ldt.
     rbind (iadd Ldt i_time v1_update (- 0.5 * (Re Lp - Re Lm))) (\<lambda>Ldt.
     iadd Ldt i_time v2_update (Im Lz))))))"

definition u_LdtVector :: "complex list list \<Rightarrow> complex list list \<Rightarrow> (int \<times> int) list \<Rightarrow> real vec3 list \<Rightarrow> real vec3 list result" where
  "u_LdtVector dat datadot lm Ldt =
     xrange_loop [0..<length lm] (\<lambda>i_mode.
       xrange_loop [0..<length dat]
         (LdtVector_step dat datadot (int i_mode) (fst (lm ! i_mode)) (snd (lm ! i_mode)))) Ldt"

definition LdtVector :: "WaveformModes \<Rightarrow> real vec3 list result" where
  "LdtVector W = u_LdtVector (W_data W) (W_data_dot W) (W_LM W) (zeros_vec3 (n_times W))"

text \<open>\<open>_LVector\<close> adds complex numbers into a complex array.\<close>

definition LVector_step :: "complex list list \<Rightarrow> complex list list \<Rightarrow> int \<Rightarrow> int \<Rightarrow> int \<Rightarrow> nat \<Rightarrow> complex vec3 list \<Rightarrow> complex vec3 list result" where
  "LVector_step data1 data2 i_mode L M i_time Lvec =
     rbind (term_Lp data1 data2 i_time i_mode L M) (\<lambda>Lp.
     rbind (term_Lm data1 data2 i_time i_mode L M) (\<lambda>Lm.
     rbind (term_Lz data1 data2 i_time i_mode L M) (\<lambda>Lz.
     rbind (iadd Lvec i_time v0_update (0.5 * (Lp + Lm))) (\<lambda>Lvec.
     rbind (iadd Lvec i_time v1_update (- (0.5 * \<i>) * (Lp - Lm))) (\<lambda>Lvec.
     iadd Lvec i_time v2_update Lz)))))"

definition u_LVector :: "complex list list \<Rightarrow> complex list list \<Rightarrow> (int \<times> int) list \<Rightarrow> complex vec3 list \<Rightarrow> complex vec3 list result" where
  "u_LVector data1 data2 lm Lvec =
     xrange_loop [0..<length lm] (\<lambda>i_mode.
       xrange_loop [0..<length data1]
         (LVector_step data1 data2 (int i_mode) (fst (lm ! i_mode)) (snd (lm ! i_mode)))) Lvec"

definition LVector :: "WaveformModes \<Rightarrow> WaveformModes \<Rightarrow> complex vec3 list result" where
  "LVector W1 W2 = u_LVector (W_data W1) (W_data W2) (W_LM W1) (zeros_vec3 (n_times W1))"

definition Im_vec3 :: "complex vec3 \<Rightarrow> real vec3" where
  "Im_vec3 c = \<lparr>v0 = Im (v0 c), v1 = Im (v1 c), v2 = Im (v2 c)\<rparr>"

section \<open>The dominant eigenvector and its continuity walk\<close>

text \<open>
  \<open>A[i, c] *= x\<close> and \<open>A[i, c] /= x\<close>.  A division of floats by zero raises
  \<open>ZeroDivisionError\<close> in the compiled helper.
\<close>

definition imul :: "'r list \<Rightarrow> int \<Rightarrow> ((real \<Rightarrow> real) \<Rightarrow> 'r \<Rightarrow> 'r) \<Rightarrow> real \<Rightarrow> 'r list result" where
  "imul A i upd x = rbind (getitem A i) (\<lambda>r. setitem A i (upd (\<lambda>old. old * x) r))"

definition idiv :: "'r list \<Rightarrow> int \<Rightarrow> ((real \<Rightarrow> real) \<Rightarrow> 'r \<Rightarrow> 'r) \<Rightarrow> real \<Rightarrow> 'r list result" where
  "idiv A i upd x =
     rbind (getitem A i) (\<lambda>r.
       if x = 0 then Inl ZeroDivision else setitem A i (upd (\<lambda>old. old / x) r))"

definition negate_sample :: "real vec3 list \<Rightarrow> int \<Rightarrow> real vec3 list result" where
  "negate_sample dpa i =
     rbind (imul dpa i v0_update (- 1)) (\<lambda>dpa.
     rbind (imul dpa i v1_update (- 1)) (\<lambda>dpa.
     imul dpa i v2_update (- 1)))"

definition divide_sample :: "real vec3 list \<Rightarrow> int \<Rightarrow> real \<Rightarrow> real vec3 list result" where
  "divide_sample dpa i LastNorm =
     rbind (idiv dpa i v0_update LastNorm) (\<lambda>dpa.
     rbind (idiv dpa i v1_update LastNorm) (\<lambda>dpa.
     idiv dpa i v2_update LastNorm))"

text \<open>\<open>if LastNorm != 0.0 and LastNorm != 1.0:\<close> followed by the three divisions.\<close>

definition normalize_sample :: "real vec3 list \<Rightarrow> int \<Rightarrow> real \<Rightarrow> real vec3 list result" where
  "normalize_sample dpa i LastNorm =
     (if LastNorm \<noteq> 0 \<and> LastNorm \<noteq> 1 then divide_sample dpa i LastNorm else Inr dpa)"

definition sqnorm :: "real vec3 \<Rightarrow> real" where
  "sqnorm v = (v0 v)\<^sup>2 + (v1 v)\<^sup>2 + (v2 v)\<^sup>2"

definition sqdist :: "real vec3 \<Rightarrow> real vec3 \<Rightarrow> real" where
  "sqdist v w = (v0 v - v0 w)\<^sup>2 + (v1 v - v1 w)\<^sup>2 + (v2 v - v2 w)\<^sup>2"

text \<open>The test and flip at the reference index.\<close>

definition orient_reference :: "real vec3 list \<Rightarrow> real list \<Rightarrow> int \<Rightarrow> real vec3 list result" where
  "orient_reference dpa dpa_i i_index =
     rbind (getitem dpa_i 0) (\<lambda>r0.
     rbind (getitem dpa i_index) (\<lambda>v.
     rbind (getitem dpa_i 1) (\<lambda>r1.
     rbind (getitem dpa_i 2) (\<lambda>r2.
     if r0 * v0 v + r1 * v1 v + r2 * v2 v < 0 then negate_sample dpa i_index else Inr dpa))))"

text \<open>
  One pass of either loop body, with \<open>d = -1\<close> on the way to the start and \<open>d = 1\<close> on
  the way to the end; the state is the array and \<open>LastNorm\<close>.
\<close>

definition walk_step :: "int \<Rightarrow> int \<Rightarrow> real vec3 list \<times> real \<Rightarrow> (real vec3 list \<times> real) result" where
  "walk_step d i st =
     rbind (getitem (fst st) i) (\<lambda>cur.
     rbind (getitem (fst st) (i - d)) (\<lambda>prev.
     rbind (if sqdist cur prev > sqnorm cur then negate_sample (fst st) i else Inr (fst st)) (\<lambda>dpa.
     rbind (normalize_sample dpa (i - d) (snd st)) (\<lambda>dpa.
     Inr (dpa, sqrt (sqnorm cur))))))"

definition u_LLDominantEigenvector :: "real vec3 list \<Rightarrow> real list \<Rightarrow> int \<Rightarrow> real vec3 list result" where
  "u_LLDominantEigenvector dpa dpa_i i_index =
     rbind (orient_reference dpa dpa_i i_index) (\<lambda>dpa.
     rbind (getitem dpa i_index) (\<lambda>ref.
     rbind (xrange_loop (rev [0..i_index - 1]) (walk_step (- 1)) (dpa, sqrt (sqnorm ref))) (\<lambda>st.
     rbind (normalize_sample (fst st) 0 (snd st)) (\<lambda>dpa.
     rbind (getitem dpa i_index) (\<lambda>ref.
     rbind (xrange_loop [i_index + 1..int (length dpa) - 1] (walk_step 1) (dpa, sqrt (sqnorm ref))) (\<lambda>st.
     normalize_sample (fst st) (- 1) (snd st)))))))"

text \<open>
  \<open>LLDominantEigenvector\<close>.  The eigensolver \<open>np.linalg.eigh\<close> is a parameter: it maps a
  tensor to its eigenvalues and to the matrix whose columns are the eigenvectors;
  \<open>eigenvecs[:, :, 2]\<close> is the last column at every time sample.
\<close>

definition last_column :: "'a mat3 \<Rightarrow> 'a vec3" where
  "last_column E = \<lparr>v0 = e02 E, v1 = e12 E, v2 = e22 E\<rparr>"

definition LLDominantEigenvector :: "(real mat3 \<Rightarrow> real vec3 \<times> real mat3) \<Rightarrow> WaveformModes \<Rightarrow> real list \<Rightarrow> int \<Rightarrow> real vec3 list result" where
  "LLDominantEigenvector eigh W RoughDirection RoughDirectionIndex =
     rbind (u_LLMatrix (W_data W) (W_LM W) (zeros_mat3 (n_times W))) (\<lambda>LL.
     u_LLDominantEigenvector (map (\<lambda>A. last_column (snd (eigh A))) LL)
       RoughDirection RoughDirectionIndex)"

section \<open>The angular velocity\<close>

definition det3 :: "real mat3 \<Rightarrow> real" where
  "det3 A = e00 A * (e11 A * e22 A - e12 A * e21 A)
          - e01 A * (e10 A * e22 A - e12 A * e20 A)
          + e02 A * (e10 A * e21 A - e11 A * e20 A)"

definition mat_vec :: "real mat3 \<Rightarrow> real vec3 \<Rightarrow> real vec3" where
  "mat_vec A x = \<lparr>v0 = e00 A * v0 x + e01 A * v1 x + e02 A * v2 x,
                  v1 = e10 A * v0 x + e11 A * v1 x + e12 A * v2 x,
                  v2 = e20 A * v0 x + e21 A * v1 x + e22 A * v2 x\<rparr>"

definition neg_vec3 :: "real vec3 \<Rightarrow> real vec3" where
  "neg_vec3 x = \<lparr>v0 = - v0 x, v1 = - v1 x, v2 = - v2 x\<rparr>"

text \<open>
  Modelled from the spec: \<open>np.linalg.solve\<close> is a library routine; by the spec it returns,
  for a 3x3 matrix and a 3-vector, the solution vector, and fails on a singular matrix.
  Over the reals the solution of a regular system is the one given by Cramer's rule.
\<close>

definition solve3 :: "real mat3 \<Rightarrow> real vec3 \<Rightarrow> real vec3 result" where
  "solve3 A b =
     (if det3 A = 0 then Inl LinAlgError
      else Inr \<lparr>v0 = det3 (A\<lparr>e00 := v0 b, e10 := v1 b, e20 := v2 b\<rparr>) / det3 A,
                v1 = det3 (A\<lparr>e01 := v0 b, e11 := v1 b, e21 := v2 b\<rparr>) / det3 A,
                v2 = det3 (A\<lparr>e02 := v0 b, e12 := v1 b, e22 := v2 b\<rparr>) / det3 A\<rparr>)"

fun linalg_solve :: "real mat3 list \<Rightarrow> real vec3 list \<Rightarrow> real vec3 list result" where
  "linalg_solve [] [] = Inr []"
| "linalg_solve (A # As) (b # bs) =
     rbind (solve3 A b) (\<lambda>x. rbind (linalg_solve As bs) (\<lambda>xs. Inr (x # xs)))"
| "linalg_solve _ _ = Inl LinAlgError"

definition angular_velocity :: "WaveformModes \<Rightarrow> real vec3 list result" where
  "angular_velocity W =
     rbind (LdtVector W) (\<lambda>l.
     rbind (LLMatrix W) (\<lambda>ll.
     rbind (linalg_solve ll l) (\<lambda>x.
     Inr (map neg_vec3 x))))"

text \<open>What one pass of \<open>_LLMatrix\<close> adds to the tensor of its time sample.\<close>

definition LLMatrix_increment :: "pmz_terms \<Rightarrow> real mat3 \<Rightarrow> real mat3" where
  "LLMatrix_increment T A =
     e22_update (\<lambda>old. old + Re (LzLz T))
    (e21_update (\<lambda>old. old + Re (LzLy T + LyLz T) / 2)
    (e20_update (\<lambda>old. old + Re (LzLx T + LxLz T) / 2)
    (e12_update (\<lambda>old. old + Re (LyLz T + LzLy T) / 2)
    (e11_update (\<lambda>old. old + Re (LyLy T))
    (e10_update (\<lambda>old. old + Re (LyLx T + LxLy T) / 2)
    (e02_update (\<lambda>old. old + Re (LxLz T + LzLx T) / 2)
    (e01_update (\<lambda>old. old + Re (LxLy T + LyLx T) / 2)
    (e00_update (\<lambda>old. old + Re (LxLx T)) A))))))))"

section \<open>Well-formed series\<close>

text \<open>
  The spec's invariants of a mode time series: \<open>data\<close> has the shape
  \<open>(n_times, n_modes)\<close>, and the mode table lists, for each \<open>ell\<close>, every \<open>m\<close> from
  \<open>-ell\<close> to \<open>ell\<close> in adjacent rows.
\<close>

definition rectangular :: "'a list list \<Rightarrow> nat \<Rightarrow> nat \<Rightarrow> bool" where
  "rectangular a n k \<longleftrightarrow> length a = n \<and> list_all (\<lambda>row. length row = k) a"

definition mode_ok :: "(int \<times> int) list \<Rightarrow> nat \<Rightarrow> bool" where
  "mode_ok lm k \<longleftrightarrow>
     - fst (lm ! k) \<le> snd (lm ! k) \<and> snd (lm ! k) \<le> fst (lm ! k) \<and>
     (snd (lm ! k) < fst (lm ! k) \<longrightarrow>
        Suc k < length lm \<and> lm ! Suc k = (fst (lm ! k), snd (lm ! k) + 1)) \<and>
     (- fst (lm ! k) < snd (lm ! k) \<longrightarrow>
        0 < k \<and> lm ! (k - 1) = (fst (lm ! k), snd (lm ! k) - 1))"

definition modes_contiguous :: "(int \<times> int) list \<Rightarrow> bool" where
  "modes_contiguous lm \<longleftrightarrow> list_all (mode_ok lm) [0..<length lm]"

definition well_formed :: "WaveformModes \<Rightarrow> bool" where
  "well_formed W \<longleftrightarrow>
     rectangular (W_data W) (n_times W) (length (W_LM W)) \<and>
     rectangular (W_data_dot W) (n_times W) (length (W_LM W)) \<and>
     modes_contiguous (W_LM W)"

section \<open>An example series\<close>

text \<open>One time sample of the three \<open>ell = 1\<close> modes, with only the \<open>m = 1\<close> mode excited.\<close>

definition example_W :: WaveformModes where
  "example_W = \<lparr>W_t = [0], W_data = [[0, 0, 1]], W_data_dot = [[0, 0, \<i>]],
     W_LM = [(1, - 1), (1, 0), (1, 1)], W_max_norm_time = 0\<rparr>"

section \<open>Comparing the two tensor accumulators\<close>





text \<open>A second example: one time sample of the three \<open>ell = 1\<close> modes, none of them zero.\<close>

definition example_data :: "complex list list" where
  "example_data = [[1, 2, \<i>]]"

definition example_LM :: "(int \<times> int) list" where
  "example_LM = [(1, - 1), (1, 0), (1, 1)]"

section \<open>The continuity correction as a function on lists\<close>

text \<open>A sample after \<open>*= -1\<close> on its three components, and after \<open>/= n\<close> on them.\<close>

definition negated :: "real vec3 \<Rightarrow> real vec3" where
  "negated v = v2_update (\<lambda>old. old * (- 1)) (v1_update (\<lambda>old. old * (- 1))
     (v0_update (\<lambda>old. old * (- 1)) v))"

definition divided :: "real vec3 \<Rightarrow> real \<Rightarrow> real vec3" where
  "divided v n = v2_update (\<lambda>old. old / n) (v1_update (\<lambda>old. old / n)
     (v0_update (\<lambda>old. old / n) v))"

definition valid_index :: "nat \<Rightarrow> int \<Rightarrow> bool" where
  "valid_index n i \<longleftrightarrow> - int n \<le> i \<and> i < int n"

text \<open>
  Modelled from the spec: the eigensolver is a library routine that returns the eigenvalues
  in increasing order and orthonormal eigenvectors.  On a diagonal tensor whose diagonal
  increases, as in the example series, these are the diagonal and the unit vectors.
\<close>

definition eigh_diagonal :: "real mat3 \<Rightarrow> real vec3 \<times> real mat3" where
  "eigh_diagonal A =
     (\<lparr>v0 = e00 A, v1 = e11 A, v2 = e22 A\<rparr>,
      \<lparr>e00 = 1, e01 = 0, e02 = 0, e10 = 0, e11 = 1, e12 = 0, e20 = 0, e21 = 0, e22 = 1\<rparr>)"

text \<open>
  The continuity correction in the words of the spec.  The candidate at the reference
  index is flipped when its dot product with the rough direction is negative.  On a walk
  away from the reference index a candidate is flipped when its squared distance to the
  neighbour corrected before it exceeds its own squared norm.  Every sample is divided by
  its norm unless the norm is \<open>0\<close> or \<open>1\<close>.
\<close>

definition flip_if_closer :: "real vec3 \<Rightarrow> real vec3 \<Rightarrow> real vec3" where
  "flip_if_closer prev cur = (if sqdist cur prev > sqnorm cur then negated cur else cur)"

fun continuity_walk :: "real vec3 \<Rightarrow> real vec3 list \<Rightarrow> real vec3 list" where
  "continuity_walk prev [] = []"
| "continuity_walk prev (cur # rest) =
     flip_if_closer prev cur # continuity_walk (flip_if_closer prev cur) rest"

definition norm_by :: "real \<Rightarrow> real vec3 \<Rightarrow> real vec3" where
  "norm_by n v = (if n \<noteq> 0 \<and> n \<noteq> 1 then divided v n else v)"

definition normalized :: "real vec3 \<Rightarrow> real vec3" where
  "normalized v = norm_by (sqrt (sqnorm v)) v"

definition oriented :: "real list \<Rightarrow> real vec3 \<Rightarrow> real vec3" where
  "oriented rough v =
     (if rough ! 0 * v0 v + rough ! 1 * v1 v + rough ! 2 * v2 v < 0 then negated v else v)"

text \<open>
  The walk towards the start sees the oriented reference sample as it is; the walk
  towards the end starts after the reference sample has been normalized.
\<close>

definition continuity_corrected :: "real vec3 list \<Rightarrow> real list \<Rightarrow> nat \<Rightarrow> real vec3 list" where
  "continuity_corrected dpa rough i0 =
     map normalized (rev (continuity_walk (oriented rough (dpa ! i0)) (rev (take i0 dpa)))) @
     [normalized (oriented rough (dpa ! i0))] @
     map normalized (continuity_walk (normalized (oriented rough (dpa ! i0))) (drop (Suc i0) dpa))"

definition example_dpa :: "real vec3 list" where
  "example_dpa = [\<lparr>v0 = 0, v1 = 0, v2 = - 2\<rparr>, \<lparr>v0 = 0, v1 = 0, v2 = 2\<rparr>, \<lparr>v0 = 0, v1 = 0, v2 = - 1\<rparr>]"

definition is_zero_tensor :: "real mat3 \<Rightarrow> bool" where
  "is_zero_tensor A \<longleftrightarrow> e00 A = 0 \<and> e01 A = 0 \<and> e02 A = 0 \<and> e10 A = 0 \<and> e11 A = 0 \<and>
     e12 A = 0 \<and> e20 A = 0 \<and> e21 A = 0 \<and> e22 A = 0"

text \<open>A corrected sample has norm one unless its candidate is the zero vector.\<close>

definition unit_or_zero :: "real vec3 \<Rightarrow> real vec3 \<Rightarrow> bool" where
  "unit_or_zero candidate out \<longleftrightarrow> sqnorm out = (if sqnorm candidate = 0 then 0 else 1)"

section \<open>The corotating frame\<close>























text \<open>
  A static series: eleven time samples \<open>0, 1, ..., 10\<close> of the three \<open>ell = 1\<close> modes, with
  only the \<open>m = 1\<close> mode excited and constant in time; the norm is taken to peak at the last
  sample.
\<close>

definition static_W :: WaveformModes where
  "static_W = \<lparr>W_t = [0, 1, 2, 3, 4, 5, 6, 7, 8, 9, 10], W_data = replicate 11 [0, 0, 1],
     W_data_dot = replicate 11 [0, 0, 0], W_LM = [(1, - 1), (1, 0), (1, 1)],
     W_max_norm_time = 10\<rparr>"

section \<open>The values of the first-moment terms\<close>

text \<open>
  The three terms of mode \<open>k\<close> at time sample \<open>i\<close> as the specification words them: the coefficient
  of the first array at \<open>m + 1\<close>, at \<open>m - 1\<close> and at \<open>m\<close>, conjugated, times the coefficient of
  the second array at \<open>m\<close>, times the ladder coefficient or \<open>m\<close>; zero when \<open>m + 1\<close> or
  \<open>m - 1\<close> leaves \<open>[-ell, ell]\<close>.
\<close>

definition Lp_value :: "complex list list \<Rightarrow> complex list list \<Rightarrow> (int \<times> int) list \<Rightarrow> nat \<Rightarrow> nat \<Rightarrow> complex" where
  "Lp_value d1 d2 lm i k =
     (if snd (lm ! k) + 1 \<le> fst (lm ! k)
      then cnj (d1 ! i ! (k + 1)) * (d2 ! i ! k) * of_real (ladder (fst (lm ! k)) (snd (lm ! k)))
      else 0)"

definition Lm_value :: "complex list list \<Rightarrow> complex list list \<Rightarrow> (int \<times> int) list \<Rightarrow> nat \<Rightarrow> nat \<Rightarrow> complex" where
  "Lm_value d1 d2 lm i k =
     (if - fst (lm ! k) \<le> snd (lm ! k) - 1
      then cnj (d1 ! i ! (k - 1)) * (d2 ! i ! k) * of_real (ladder (fst (lm ! k)) (- snd (lm ! k)))
      else 0)"

definition Lz_value :: "complex list list \<Rightarrow> complex list list \<Rightarrow> (int \<times> int) list \<Rightarrow> nat \<Rightarrow> nat \<Rightarrow> complex" where
  "Lz_value d1 d2 lm i k = cnj (d1 ! i ! k) * (d2 ! i ! k) * of_int (snd (lm ! k))"

text \<open>
  A series with all three \<open>ell = 1\<close> modes excited, at one time sample: the coefficients are
  \<open>1\<close>, \<open>sqrt 2\<close> and \<open>\<i>\<close>, their time derivatives \<open>\<i>\<close>, \<open>sqrt 2 \<i>\<close> and \<open>3\<close>.
\<close>

definition mixed_W :: WaveformModes where
  "mixed_W = \<lparr>W_t = [0], W_data = [[1, complex_of_real (sqrt 2), \<i>]],
     W_data_dot = [[\<i>, complex_of_real (sqrt 2) * \<i>, 3]],
     W_LM = [(1, - 1), (1, 0), (1, 1)], W_max_norm_time = 0\<rparr>"

section \<open>The relation between the two tensors of one series\<close>


section \<open>Basic facts about failures, arrays and loops\<close>

lemma rbind_Inr_iff: "rbind r f = Inr y \<longleftrightarrow> (\<exists>v. r = Inr v \<and> f v = Inr y)"
  by (cases r) (simp_all add: rbind_def)

lemma rbind_Inr [simp]: "rbind (Inr v) f = f v"
  by (simp add: rbind_def)

lemma rbind_Inl [simp]: "rbind (Inl e) f = Inl e"
  by (simp add: rbind_def)

lemma getitem_nat: "getitem xs (int i) = (if i < length xs then Inr (xs ! i) else Inl IndexOutOfBounds)"
  by (simp add: getitem_def wrap_index_def)

lemma getitem_in_range: "0 \<le> k \<Longrightarrow> k < int (length xs) \<Longrightarrow> getitem xs k = Inr (xs ! nat k)"
  by (simp add: getitem_def wrap_index_def)

lemma setitem_nat: "setitem xs (int i) v = (if i < length xs then Inr (xs[i := v]) else Inl IndexOutOfBounds)"
  by (simp add: setitem_def wrap_index_def)

lemma iadd_eq: "iadd A i upd x = (if i < length A then Inr (A[i := upd (\<lambda>old. old + x) (A ! i)]) else Inl IndexOutOfBounds)"
  by (simp add: iadd_def getitem_nat setitem_nat rbind_def)

lemma xrange_loop_invariant:
  assumes "xrange_loop js body s = Inr s'" and "P s"
    and "\<And>i s s'. i \<in> set js \<Longrightarrow> P s \<Longrightarrow> body i s = Inr s' \<Longrightarrow> P s'"
  shows "P s'"
  using assms
proof (induction js arbitrary: s)
  case Nil then show ?case by simp
next
  case (Cons j js)
  from Cons.prems(1) obtain s1 where b: "body j s = Inr s1" and r: "xrange_loop js body s1 = Inr s'"
    by (auto simp: rbind_Inr_iff)
  have p1: "P s1" using Cons.prems(3)[of j s s1] Cons.prems(2) b by simp
  show ?case
  proof (rule Cons.IH[OF r p1])
    fix i s s' assume "i \<in> set js" "P s" "body i s = Inr s'"
    then show "P s'" using Cons.prems(3)[of i s s'] by simp
  qed
qed

section \<open>The terms on a well-formed series\<close>

lemma rectangular_row: "rectangular a n K \<Longrightarrow> i < n \<Longrightarrow> length (a ! i) = K \<and> i < length a"
  by (auto simp: rectangular_def list_all_length)

lemma bilinear_int:
  assumes "rectangular d1 n K" "rectangular d2 n K" "i < n" "0 \<le> a" "a < int K" "0 \<le> b" "b < int K"
  shows "bilinear d1 a d2 b i c = Inr (cnj (d1 ! i ! nat a) * (d2 ! i ! nat b) * of_real c)"
  using rectangular_row[OF assms(1,3)] rectangular_row[OF assms(2,3)] assms(4-7)
  by (simp add: bilinear_def getitem2_def getitem_nat getitem_in_range)

lemma bilinear_same:
  assumes "rectangular d1 n K" "rectangular d2 n K" "i < n" "k < K"
  shows "bilinear d1 (int k) d2 (int k) i c = Inr (cnj (d1 ! i ! k) * (d2 ! i ! k) * of_real c)"
  using bilinear_int[OF assms(1-3), of "int k" "int k" c] assms(4) by simp

lemma bilinear_up1:
  assumes "rectangular d1 n K" "rectangular d2 n K" "i < n" "Suc k < K"
  shows "bilinear d1 (int k + 1) d2 (int k) i c = Inr (cnj (d1 ! i ! (k + 1)) * (d2 ! i ! k) * of_real c)"
proof -
  have "nat (int k + 1) = k + 1" by simp
  then show ?thesis using bilinear_int[OF assms(1-3), of "int k + 1" "int k" c] assms(4) by simp
qed

lemma bilinear_up2:
  assumes "rectangular d1 n K" "rectangular d2 n K" "i < n" "Suc (Suc k) < K"
  shows "bilinear d1 (int k + 2) d2 (int k) i c = Inr (cnj (d1 ! i ! (k + 2)) * (d2 ! i ! k) * of_real c)"
proof -
  have "nat (int k + 2) = k + 2" by simp
  then show ?thesis using bilinear_int[OF assms(1-3), of "int k + 2" "int k" c] assms(4) by simp
qed

lemma bilinear_down1:
  assumes "rectangular d1 n K" "rectangular d2 n K" "i < n" "k < K" "1 \<le> k"
  shows "bilinear d1 (int k - 1) d2 (int k) i c = Inr (cnj (d1 ! i ! (k - 1)) * (d2 ! i ! k) * of_real c)"
proof -
  have "nat (int k - 1) = k - 1" by simp
  then show ?thesis using bilinear_int[OF assms(1-3), of "int k - 1" "int k" c] assms(4,5) by simp
qed

lemma bilinear_down2:
  assumes "rectangular d1 n K" "rectangular d2 n K" "i < n" "k < K" "2 \<le> k"
  shows "bilinear d1 (int k - 2) d2 (int k) i c = Inr (cnj (d1 ! i ! (k - 2)) * (d2 ! i ! k) * of_real c)"
proof -
  have "nat (int k - 2) = k - 2" by simp
  then show ?thesis using bilinear_int[OF assms(1-3), of "int k - 2" "int k" c] assms(4,5) by simp
qed

lemma mode_okD: "modes_contiguous lm \<Longrightarrow> k < length lm \<Longrightarrow> mode_ok lm k"
  by (simp add: modes_contiguous_def list_all_iff)

lemma mode_up1:
  assumes "modes_contiguous lm" "k < length lm" "snd (lm ! k) + 1 \<le> fst (lm ! k)"
  shows "Suc k < length lm \<and> lm ! Suc k = (fst (lm ! k), snd (lm ! k) + 1)"
  using mode_okD[OF assms(1,2)] assms(3) by (simp add: mode_ok_def)

lemma mode_up2:
  assumes "modes_contiguous lm" "k < length lm" "snd (lm ! k) + 2 \<le> fst (lm ! k)"
  shows "Suc (Suc k) < length lm \<and> lm ! Suc (Suc k) = (fst (lm ! k), snd (lm ! k) + 2)"
proof -
  have 1: "Suc k < length lm \<and> lm ! Suc k = (fst (lm ! k), snd (lm ! k) + 1)"
    using mode_up1[OF assms(1,2)] assms(3) by simp
  then have "snd (lm ! Suc k) + 1 \<le> fst (lm ! Suc k)" using assms(3) by simp
  from mode_up1[OF assms(1) _ this] 1 show ?thesis by simp
qed

lemma mode_down1:
  assumes "modes_contiguous lm" "k < length lm" "- fst (lm ! k) \<le> snd (lm ! k) - 1"
  shows "1 \<le> k \<and> lm ! (k - 1) = (fst (lm ! k), snd (lm ! k) - 1)"
  using mode_okD[OF assms(1,2)] assms(3) by (simp add: mode_ok_def)

lemma mode_down2:
  assumes "modes_contiguous lm" "k < length lm" "- fst (lm ! k) \<le> snd (lm ! k) - 2"
  shows "2 \<le> k \<and> lm ! (k - 2) = (fst (lm ! k), snd (lm ! k) - 2)"
proof -
  have 1: "1 \<le> k \<and> lm ! (k - 1) = (fst (lm ! k), snd (lm ! k) - 1)"
    using mode_down1[OF assms(1,2)] assms(3) by simp
  then have 2: "- fst (lm ! (k - 1)) \<le> snd (lm ! (k - 1)) - 1" using assms(3) by simp
  have 3: "k - 1 < length lm" using assms(2) by simp
  from mode_down1[OF assms(1) 3 2] 1
  have 4: "1 \<le> k - 1" and 5: "lm ! (k - 1 - 1) = (fst (lm ! k), snd (lm ! k) - 2)"
    by simp_all
  have "k - 1 - 1 = k - 2" by simp
  with 4 5 show ?thesis by (simp add: numeral_2_eq_2)
qed

lemma term_values:
  assumes r1: "rectangular d1 n (length lm)" and r2: "rectangular d2 n (length lm)"
    and mc: "modes_contiguous lm" and k: "k < length lm" and i: "i < n"
  shows "term_Lp d1 d2 i (int k) (fst (lm ! k)) (snd (lm ! k)) =
      Inr (if snd (lm ! k) + 1 \<le> fst (lm ! k)
        then cnj (d1 ! i ! (k + 1)) * (d2 ! i ! k) * of_real (ladder (fst (lm ! k)) (snd (lm ! k))) else 0)"
   and "term_Lm d1 d2 i (int k) (fst (lm ! k)) (snd (lm ! k)) =
      Inr (if - fst (lm ! k) \<le> snd (lm ! k) - 1
        then cnj (d1 ! i ! (k - 1)) * (d2 ! i ! k) * of_real (ladder (fst (lm ! k)) (- snd (lm ! k))) else 0)"
   and "term_Lz d1 d2 i (int k) (fst (lm ! k)) (snd (lm ! k)) =
      Inr (cnj (d1 ! i ! k) * (d2 ! i ! k) * of_int (snd (lm ! k)))"
proof -
  note bl = bilinear_same[OF r1 r2 i] bilinear_up1[OF r1 r2 i] bilinear_up2[OF r1 r2 i]
    bilinear_down1[OF r1 r2 i] bilinear_down2[OF r1 r2 i]
  show "term_Lp d1 d2 i (int k) (fst (lm ! k)) (snd (lm ! k)) =
      Inr (if snd (lm ! k) + 1 \<le> fst (lm ! k)
        then cnj (d1 ! i ! (k + 1)) * (d2 ! i ! k) * of_real (ladder (fst (lm ! k)) (snd (lm ! k))) else 0)"
    using mode_up1[OF mc k] k by (simp add: term_Lp_def guarded_def bl)
  show "term_Lm d1 d2 i (int k) (fst (lm ! k)) (snd (lm ! k)) =
      Inr (if - fst (lm ! k) \<le> snd (lm ! k) - 1
        then cnj (d1 ! i ! (k - 1)) * (d2 ! i ! k) * of_real (ladder (fst (lm ! k)) (- snd (lm ! k))) else 0)"
    using mode_down1[OF mc k] k by (simp add: term_Lm_def guarded_def bl)
  show "term_Lz d1 d2 i (int k) (fst (lm ! k)) (snd (lm ! k)) =
      Inr (cnj (d1 ! i ! k) * (d2 ! i ! k) * of_int (snd (lm ! k)))"
    using k by (simp add: term_Lz_def bl)
qed

section \<open>Symmetry of the tensor of one series\<close>

lemma LLMatrix_step_eq:
  "LLMatrix_step dat k L M i LL =
     rbind (second_moment_terms dat dat i k L M) (\<lambda>T.
       if i < length LL then Inr (LL[i := LLMatrix_increment T (LL ! i)]) else Inl IndexOutOfBounds)"
  unfolding LLMatrix_step_def LLMatrix_increment_def
  by (cases "second_moment_terms dat dat i k L M") (simp_all add: rbind_def iadd_eq)

lemma LLMatrix_increment_symmetric: "symmetric3 A \<Longrightarrow> symmetric3 (LLMatrix_increment T A)"
  by (simp add: symmetric3_def LLMatrix_increment_def add.commute)

lemma LLMatrix_step_symmetric:
  assumes "LLMatrix_step dat k L M i LL = Inr LL'" and "\<forall>A \<in> set LL. symmetric3 A"
  shows "\<forall>A \<in> set LL'. symmetric3 A"
proof -
  from assms(1) obtain T where
    i: "i < length LL" and eq: "LL' = LL[i := LLMatrix_increment T (LL ! i)]"
    by (auto simp: LLMatrix_step_eq rbind_Inr_iff split: if_splits)
  have s: "symmetric3 (LLMatrix_increment T (LL ! i))"
    using assms(2) i by (simp add: LLMatrix_increment_symmetric)
  show ?thesis unfolding eq using assms(2) s set_update_subset_insert[of LL i] by blast
qed

section \<open>Totality on well-formed series\<close>

lemma xrange_loop_total:
  assumes "P s"
    and "\<And>i s. i \<in> set js \<Longrightarrow> P s \<Longrightarrow> \<exists>s'. body i s = Inr s' \<and> P s'"
  shows "\<exists>s'. xrange_loop js body s = Inr s' \<and> P s'"
  using assms
proof (induction js arbitrary: s)
  case Nil then show ?case by simp
next
  case (Cons j js)
  from Cons.prems(2)[of j s] Cons.prems(1) obtain s1 where b: "body j s = Inr s1" and p1: "P s1"
    by auto
  have "\<exists>s'. xrange_loop js body s1 = Inr s' \<and> P s'"
  proof (rule Cons.IH[OF p1])
    fix i s assume "i \<in> set js" "P s"
    then show "\<exists>s'. body i s = Inr s' \<and> P s'" using Cons.prems(2)[of i s] by simp
  qed
  then show ?case using b by simp
qed

lemma second_moment_values:
  assumes r1: "rectangular d1 n (length lm)" and r2: "rectangular d2 n (length lm)"
    and mc: "modes_contiguous lm" and k: "k < length lm" and i: "i < n"
  shows "term_LpLp d1 d2 i (int k) (fst (lm ! k)) (snd (lm ! k)) =
      Inr (if snd (lm ! k) + 2 \<le> fst (lm ! k)
        then cnj (d1 ! i ! (k + 2)) * (d2 ! i ! k) *
          of_real (ladder (fst (lm ! k)) (snd (lm ! k) + 1) * ladder (fst (lm ! k)) (snd (lm ! k))) else 0)"
   and "term_LpLm d1 d2 i (int k) (fst (lm ! k)) (snd (lm ! k)) =
      Inr (if - fst (lm ! k) \<le> snd (lm ! k) - 1
        then cnj (d1 ! i ! k) * (d2 ! i ! k) *
          of_real (ladder (fst (lm ! k)) (snd (lm ! k) - 1) * ladder (fst (lm ! k)) (- snd (lm ! k))) else 0)"
   and "term_LmLp d1 d2 i (int k) (fst (lm ! k)) (snd (lm ! k)) =
      Inr (if snd (lm ! k) + 1 \<le> fst (lm ! k)
        then cnj (d1 ! i ! k) * (d2 ! i ! k) *
          of_real (ladder (fst (lm ! k)) (- (snd (lm ! k) + 1)) * ladder (fst (lm ! k)) (snd (lm ! k))) else 0)"
   and "term_LmLm d1 d2 i (int k) (fst (lm ! k)) (snd (lm ! k)) =
      Inr (if - fst (lm ! k) \<le> snd (lm ! k) - 2
        then cnj (d1 ! i ! (k - 2)) * (d2 ! i ! k) *
          of_real (ladder (fst (lm ! k)) (- (snd (lm ! k) - 1)) * ladder (fst (lm ! k)) (- snd (lm ! k))) else 0)"
   and "term_LpLz d1 d2 i (int k) (fst (lm ! k)) (snd (lm ! k)) =
      Inr (if snd (lm ! k) + 1 \<le> fst (lm ! k)
        then cnj (d1 ! i ! (k + 1)) * (d2 ! i ! k) *
          of_real (ladder (fst (lm ! k)) (snd (lm ! k)) * of_int (snd (lm ! k))) else 0)"
   and "term_LzLp d1 d2 i (int k) (fst (lm ! k)) (snd (lm ! k)) =
      Inr (if snd (lm ! k) + 1 \<le> fst (lm ! k)
        then cnj (d1 ! i ! (k + 1)) * (d2 ! i ! k) *
          of_real (of_int (snd (lm ! k) + 1) * ladder (fst (lm ! k)) (snd (lm ! k))) else 0)"
   and "term_LmLz d1 d2 i (int k) (fst (lm ! k)) (snd (lm ! k)) =
      Inr (if - fst (lm ! k) \<le> snd (lm ! k) - 1
        then cnj (d1 ! i ! (k - 1)) * (d2 ! i ! k) *
          of_real (ladder (fst (lm ! k)) (- snd (lm ! k)) * of_int (snd (lm ! k))) else 0)"
   and "term_LzLm d1 d2 i (int k) (fst (lm ! k)) (snd (lm ! k)) =
      Inr (if - fst (lm ! k) \<le> snd (lm ! k) - 1
        then cnj (d1 ! i ! (k - 1)) * (d2 ! i ! k) *
          of_real (of_int (snd (lm ! k) - 1) * ladder (fst (lm ! k)) (- snd (lm ! k))) else 0)"
   and "term_LzLz d1 d2 i (int k) (fst (lm ! k)) (snd (lm ! k)) =
      Inr (cnj (d1 ! i ! k) * (d2 ! i ! k) * of_real (of_int ((snd (lm ! k))\<^sup>2)))"
proof -
  note bl = bilinear_same[OF r1 r2 i] bilinear_up1[OF r1 r2 i] bilinear_up2[OF r1 r2 i]
    bilinear_down1[OF r1 r2 i] bilinear_down2[OF r1 r2 i]
  note u1 = mode_up1[OF mc k] and u2 = mode_up2[OF mc k]
    and w1 = mode_down1[OF mc k] and w2 = mode_down2[OF mc k]
  show "term_LpLp d1 d2 i (int k) (fst (lm ! k)) (snd (lm ! k)) =
      Inr (if snd (lm ! k) + 2 \<le> fst (lm ! k)
        then cnj (d1 ! i ! (k + 2)) * (d2 ! i ! k) *
          of_real (ladder (fst (lm ! k)) (snd (lm ! k) + 1) * ladder (fst (lm ! k)) (snd (lm ! k))) else 0)"
    using u2 k by (simp add: term_LpLp_def guarded_def bl)
  show "term_LpLm d1 d2 i (int k) (fst (lm ! k)) (snd (lm ! k)) =
      Inr (if - fst (lm ! k) \<le> snd (lm ! k) - 1
        then cnj (d1 ! i ! k) * (d2 ! i ! k) *
          of_real (ladder (fst (lm ! k)) (snd (lm ! k) - 1) * ladder (fst (lm ! k)) (- snd (lm ! k))) else 0)"
    using k by (simp add: term_LpLm_def guarded_def bl)
  show "term_LmLp d1 d2 i (int k) (fst (lm ! k)) (snd (lm ! k)) =
      Inr (if snd (lm ! k) + 1 \<le> fst (lm ! k)
        then cnj (d1 ! i ! k) * (d2 ! i ! k) *
          of_real (ladder (fst (lm ! k)) (- (snd (lm ! k) + 1)) * ladder (fst (lm ! k)) (snd (lm ! k))) else 0)"
    using k by (simp add: term_LmLp_def guarded_def bl)
  show "term_LmLm d1 d2 i (int k) (fst (lm ! k)) (snd (lm ! k)) =
      Inr (if - fst (lm ! k) \<le> snd (lm ! k) - 2
        then cnj (d1 ! i ! (k - 2)) * (d2 ! i ! k) *
          of_real (ladder (fst (lm ! k)) (- (snd (lm ! k) - 1)) * ladder (fst (lm ! k)) (- snd (lm ! k))) else 0)"
    using w2 k by (simp add: term_LmLm_def guarded_def bl)
  show "term_LpLz d1 d2 i (int k) (fst (lm ! k)) (snd (lm ! k)) =
      Inr (if snd (lm ! k) + 1 \<le> fst (lm ! k)
        then cnj (d1 ! i ! (k + 1)) * (d2 ! i ! k) *
          of_real (ladder (fst (lm ! k)) (snd (lm ! k)) * of_int (snd (lm ! k))) else 0)"
    using u1 k by (simp add: term_LpLz_def guarded_def bl)
  show "term_LzLp d1 d2 i (int k) (fst (lm ! k)) (snd (lm ! k)) =
      Inr (if snd (lm ! k) + 1 \<le> fst (lm ! k)
        then cnj (d1 ! i ! (k + 1)) * (d2 ! i ! k) *
          of_real (of_int (snd (lm ! k) + 1) * ladder (fst (lm ! k)) (snd (lm ! k))) else 0)"
    using u1 k by (simp add: term_LzLp_def guarded_def bl)
  show "term_LmLz d1 d2 i (int k) (fst (lm ! k)) (snd (lm ! k)) =
      Inr (if - fst (lm ! k) \<le> snd (lm ! k) - 1
        then cnj (d1 ! i ! (k - 1)) * (d2 ! i ! k) *
          of_real (ladder (fst (lm ! k)) (- snd (lm ! k)) * of_int (snd (lm ! k))) else 0)"
    using w1 k by (simp add: term_LmLz_def guarded_def bl)
  show "term_LzLm d1 d2 i (int k) (fst (lm ! k)) (snd (lm ! k)) =
      Inr (if - fst (lm ! k) \<le> snd (lm ! k) - 1
        then cnj (d1 ! i ! (k - 1)) * (d2 ! i ! k) *
          of_real (of_int (snd (lm ! k) - 1) * ladder (fst (lm ! k)) (- snd (lm ! k))) else 0)"
    using w1 k by (simp add: term_LzLm_def guarded_def bl)
  show "term_LzLz d1 d2 i (int k) (fst (lm ! k)) (snd (lm ! k)) =
      Inr (cnj (d1 ! i ! k) * (d2 ! i ! k) * of_real (of_int ((snd (lm ! k))\<^sup>2)))"
    using k by (simp add: term_LzLz_def bl)
qed

lemma second_moment_terms_total:
  assumes "rectangular d1 n (length lm)" "rectangular d2 n (length lm)"
    "modes_contiguous lm" "k < length lm" "i < n"
  shows "\<exists>T. second_moment_terms d1 d2 i (int k) (fst (lm ! k)) (snd (lm ! k)) = Inr T"
  unfolding second_moment_terms_def by (simp add: second_moment_values[OF assms])

lemma u_LLMatrix_total:
  assumes r: "rectangular dat n (length lm)" and mc: "modes_contiguous lm" and len: "length LL = n"
  shows "\<exists>LL'. u_LLMatrix dat lm LL = Inr LL' \<and> length LL' = n"
  unfolding u_LLMatrix_def
proof (rule xrange_loop_total[where P = "\<lambda>LL. length LL = n", OF len])
  fix k and LL :: "real mat3 list"
  assume k: "k \<in> set [0..<length lm]" and l: "length LL = n"
  show "\<exists>s'. xrange_loop [0..<length dat] (LLMatrix_step dat (int k) (fst (lm ! k)) (snd (lm ! k))) LL = Inr s' \<and> length s' = n"
  proof (rule xrange_loop_total[where P = "\<lambda>LL. length LL = n", OF l])
    fix i and LL :: "real mat3 list"
    assume i: "i \<in> set [0..<length dat]" and l: "length LL = n"
    have i': "i < n" using i r by (simp add: rectangular_def)
    from second_moment_terms_total[OF r r mc _ i', of k] k obtain T where
      "second_moment_terms dat dat i (int k) (fst (lm ! k)) (snd (lm ! k)) = Inr T" by auto
    then show "\<exists>s'. LLMatrix_step dat (int k) (fst (lm ! k)) (snd (lm ! k)) i LL = Inr s' \<and> length s' = n"
      using i' l by (simp add: LLMatrix_step_eq)
  qed
qed

lemma u_LLMatrix_length:
  assumes "u_LLMatrix dat lm LL = Inr LL'"
  shows "length LL' = length LL"
proof (rule xrange_loop_invariant[where P = "\<lambda>A. length A = length LL",
      OF assms[unfolded u_LLMatrix_def]])
  show "length LL = length LL" by simp
next
  fix k and A A' :: "real mat3 list"
  assume l: "length A = length LL"
    and lp: "xrange_loop [0..<length dat] (LLMatrix_step dat (int k) (fst (lm ! k)) (snd (lm ! k))) A = Inr A'"
  show "length A' = length LL"
  proof (rule xrange_loop_invariant[where P = "\<lambda>A. length A = length LL", OF lp l])
    fix i and B B' :: "real mat3 list"
    assume "length B = length LL" "LLMatrix_step dat (int k) (fst (lm ! k)) (snd (lm ! k)) i B = Inr B'"
    then show "length B' = length LL"
      by (auto simp: LLMatrix_step_eq rbind_Inr_iff split: if_splits)
  qed
qed

lemma u_LLMatrix_symmetric:
  assumes "u_LLMatrix dat lm LL = Inr LL'" and "\<forall>A \<in> set LL. symmetric3 A"
  shows "\<forall>A \<in> set LL'. symmetric3 A"
proof (rule xrange_loop_invariant[where P = "\<lambda>LL. \<forall>A \<in> set LL. symmetric3 A",
      OF assms(1)[unfolded u_LLMatrix_def] assms(2)])
  fix k and A A' :: "real mat3 list"
  assume pa: "\<forall>A \<in> set A. symmetric3 A"
    and lp: "xrange_loop [0..<length dat] (LLMatrix_step dat (int k) (fst (lm ! k)) (snd (lm ! k))) A = Inr A'"
  show "\<forall>A \<in> set A'. symmetric3 A"
  proof (rule xrange_loop_invariant[where P = "\<lambda>LL. \<forall>A \<in> set LL. symmetric3 A", OF lp pa])
    fix i and B B' :: "real mat3 list"
    assume "\<forall>A \<in> set B. symmetric3 A" "LLMatrix_step dat (int k) (fst (lm ! k)) (snd (lm ! k)) i B = Inr B'"
    then show "\<forall>A \<in> set B'. symmetric3 A" using LLMatrix_step_symmetric by blast
  qed
qed

lemma zeros_mat3_symmetric: "\<forall>A \<in> set (zeros_mat3 n). symmetric3 A"
  by (simp add: zeros_mat3_def symmetric3_def)

text \<open>
  Claim C2, for the tensor of a single series: whenever \<open>LLMatrix\<close> returns, it returns
  one tensor per time sample and each of them is symmetric, entry \<open>(a, b)\<close> being equal to
  entry \<open>(b, a)\<close>; on a well-formed series it does return.  The comparison tensor of two
  series is not symmetrized by the code, as the example after this theorem shows.
\<close>

theorem LLMatrix_symmetric:
  "(\<forall>LL. LLMatrix W = Inr LL \<longrightarrow> length LL = n_times W \<and> (\<forall>A \<in> set LL. symmetric3 A)) \<and>
   (well_formed W \<longrightarrow> (\<exists>LL. LLMatrix W = Inr LL))"
proof (intro conjI allI impI)
  fix LL assume "LLMatrix W = Inr LL"
  then have u: "u_LLMatrix (W_data W) (W_LM W) (zeros_mat3 (n_times W)) = Inr LL"
    by (simp add: LLMatrix_def)
  show "length LL = n_times W" using u_LLMatrix_length[OF u] by (simp add: zeros_mat3_def)
  show "\<forall>A \<in> set LL. symmetric3 A" by (rule u_LLMatrix_symmetric[OF u zeros_mat3_symmetric])
next
  assume "well_formed W"
  then have "rectangular (W_data W) (n_times W) (length (W_LM W))" "modes_contiguous (W_LM W)"
    by (simp_all add: well_formed_def)
  from u_LLMatrix_total[OF this, of "zeros_mat3 (n_times W)"]
  show "\<exists>LL. LLMatrix W = Inr LL" by (auto simp: LLMatrix_def zeros_mat3_def)
qed

lemma upt_3: "[0..<3] = [0, 1, 2]"
  by (simp add: upt_rec)

lemma example_W_well_formed: "well_formed example_W"
  by (simp add: well_formed_def example_W_def rectangular_def modes_contiguous_def mode_ok_def
      n_times_def upt_3)

text \<open>The example series is well formed, so its tensor exists and is symmetric.\<close>

theorem LLMatrix_symmetric_witness:
  "well_formed example_W \<and>
   (\<exists>LL. LLMatrix example_W = Inr LL \<and> length LL = 1 \<and> (\<forall>A \<in> set LL. symmetric3 A))"
  using LLMatrix_symmetric[of example_W] example_W_well_formed
  by (auto simp: n_times_def example_W_def)

lemmas accumulator_defs =
  second_moment_terms_def term_LpLp_def term_LpLm_def term_LmLp_def term_LmLm_def
  term_LpLz_def term_LzLp_def term_LmLz_def term_LzLm_def term_LzLz_def
  term_Lp_def term_Lm_def term_Lz_def
  guarded_def bilinear_def getitem2_def getitem_def setitem_def wrap_index_def iadd_def
  LxLx_def LxLy_def LxLz_def LyLx_def LyLy_def LyLz_def LzLx_def LzLy_def
  zeros_mat3_def zeros_vec3_def n_times_def ladder_def

lemma LLComparisonMatrix_example:
  "LLComparisonMatrix example_W example_W =
     Inr [\<lparr>e00 = 1 / 2, e01 = \<i> / 2, e02 = 0, e10 = - \<i> / 2, e11 = 1 / 2, e12 = 0,
           e20 = 0, e21 = 0, e22 = 1\<rparr>]"
  by (simp add: LLComparisonMatrix_def u_LLComparisonMatrix_def LLComparisonMatrix_step_def
      accumulator_defs example_W_def upt_3)

lemma LLMatrix_example:
  "LLMatrix example_W =
     Inr [\<lparr>e00 = 1 / 2, e01 = 0, e02 = 0, e10 = 0, e11 = 1 / 2, e12 = 0,
           e20 = 0, e21 = 0, e22 = 1\<rparr>]"
  by (simp add: LLMatrix_def u_LLMatrix_def LLMatrix_step_def
      accumulator_defs example_W_def upt_3)

text \<open>
  On the example series compared with itself, entry \<open>(0, 1)\<close> of the comparison tensor is
  \<open>\<i>/2\<close> and entry \<open>(1, 0)\<close> is \<open>-\<i>/2\<close>.
\<close>

theorem LLComparisonMatrix_not_symmetric:
  "LLComparisonMatrix example_W example_W =
     Inr [\<lparr>e00 = 1 / 2, e01 = \<i> / 2, e02 = 0, e10 = - \<i> / 2, e11 = 1 / 2, e12 = 0,
           e20 = 0, e21 = 0, e22 = 1\<rparr>] \<and>
   \<not> symmetric3 \<lparr>e00 = 1 / 2, e01 = \<i> / 2, e02 = 0, e10 = - \<i> / 2, e11 = 1 / 2, e12 = 0,
           e20 = 0, e21 = 0, e22 = (1::complex)\<rparr>"
  by (simp add: LLComparisonMatrix_example symmetric3_def complex_eq_iff)

section \<open>Two loops in step\<close>

lemma xrange_loop_related:
  assumes "R s t"
    and "\<And>i s t. i \<in> set js \<Longrightarrow> R s t \<Longrightarrow> rel_sum (=) R (f i s) (g i t)"
  shows "rel_sum (=) R (xrange_loop js f s) (xrange_loop js g t)"
  using assms
proof (induction js arbitrary: s t)
  case Nil then show ?case by simp
next
  case (Cons j js)
  have st: "rel_sum (=) R (f j s) (g j t)" using Cons.prems(2)[of j s t] Cons.prems(1) by simp
  show ?case
  proof (cases "f j s")
    case (Inl e)
    with st show ?thesis by (cases "g j t") simp_all
  next
    case (Inr s1)
    with st obtain t1 where g: "g j t = Inr t1" and r1: "R s1 t1" by (cases "g j t") simp_all
    have "rel_sum (=) R (xrange_loop js f s1) (xrange_loop js g t1)"
    proof (rule Cons.IH[OF r1])
      fix i s t assume "i \<in> set js" "R s t"
      then show "rel_sum (=) R (f i s) (g i t)" using Cons.prems(2)[of i s t] by simp
    qed
    then show ?thesis using Inr g by simp
  qed
qed

section \<open>The derivative moment vector is the imaginary part of the complex contraction\<close>

lemma Im_half: "Im (0.5 * z) = 0.5 * Im z" "Im (- (0.5 * \<i>) * z) = - 0.5 * Re z"
  by simp_all

lemma LdtVector_step_related:
  assumes "Ldt = map Im_vec3 Lvec"
  shows "rel_sum (=) (\<lambda>a b. a = map Im_vec3 b)
           (LdtVector_step dat datadot k L M i Ldt) (LVector_step dat datadot k L M i Lvec)"
proof (cases "term_Lp dat datadot i k L M")
  case (Inl e) then show ?thesis by (simp add: LdtVector_step_def LVector_step_def)
next
  case Lp: (Inr Lp)
  show ?thesis
  proof (cases "term_Lm dat datadot i k L M")
    case (Inl e) then show ?thesis using Lp by (simp add: LdtVector_step_def LVector_step_def)
  next
    case Lm: (Inr Lm)
    show ?thesis
    proof (cases "term_Lz dat datadot i k L M")
      case (Inl e) then show ?thesis using Lp Lm by (simp add: LdtVector_step_def LVector_step_def)
    next
      case Lz: (Inr Lz)
      show ?thesis using Lp Lm Lz assms
        by (simp add: LdtVector_step_def LVector_step_def iadd_eq map_update Im_vec3_def Im_half)
    qed
  qed
qed

lemma u_LdtVector_related:
  assumes "Ldt = map Im_vec3 Lvec"
  shows "rel_sum (=) (\<lambda>a b. a = map Im_vec3 b)
           (u_LdtVector dat datadot lm Ldt) (u_LVector dat datadot lm Lvec)"
  unfolding u_LdtVector_def u_LVector_def
proof (rule xrange_loop_related[where R = "\<lambda>a b. a = map Im_vec3 b", OF assms])
  fix k and s :: "real vec3 list" and t :: "complex vec3 list"
  assume st: "s = map Im_vec3 t"
  show "rel_sum (=) (\<lambda>a b. a = map Im_vec3 b)
     (xrange_loop [0..<length dat] (LdtVector_step dat datadot (int k) (fst (lm ! k)) (snd (lm ! k))) s)
     (xrange_loop [0..<length dat] (LVector_step dat datadot (int k) (fst (lm ! k)) (snd (lm ! k))) t)"
  proof (rule xrange_loop_related[where R = "\<lambda>a b. a = map Im_vec3 b", OF st])
    fix i and s :: "real vec3 list" and t :: "complex vec3 list"
    assume "s = map Im_vec3 t"
    then show "rel_sum (=) (\<lambda>a b. a = map Im_vec3 b)
      (LdtVector_step dat datadot (int k) (fst (lm ! k)) (snd (lm ! k)) i s)
      (LVector_step dat datadot (int k) (fst (lm ! k)) (snd (lm ! k)) i t)"
      by (rule LdtVector_step_related)
  qed
qed

lemma rel_sum_map: "rel_sum (=) (\<lambda>a b. a = h b) x y \<Longrightarrow> x = map_sum id h y"
  by (cases x; cases y) simp_all

lemma LVector_step_length:
  "LVector_step d1 d2 k L M i A = Inr A' \<Longrightarrow> length A' = length A"
  by (auto simp: LVector_step_def rbind_Inr_iff iadd_eq split: if_splits)

lemma u_LVector_length:
  assumes "u_LVector d1 d2 lm A = Inr A'"
  shows "length A' = length A"
proof (rule xrange_loop_invariant[where P = "\<lambda>B. length B = length A",
      OF assms[unfolded u_LVector_def]])
  show "length A = length A" by simp
next
  fix k and B B' :: "complex vec3 list"
  assume l: "length B = length A"
    and lp: "xrange_loop [0..<length d1] (LVector_step d1 d2 (int k) (fst (lm ! k)) (snd (lm ! k))) B = Inr B'"
  show "length B' = length A"
  proof (rule xrange_loop_invariant[where P = "\<lambda>B. length B = length A", OF lp l])
    fix i and C C' :: "complex vec3 list"
    assume "length C = length A" "LVector_step d1 d2 (int k) (fst (lm ! k)) (snd (lm ! k)) i C = Inr C'"
    then show "length C' = length A" using LVector_step_length by metis
  qed
qed

lemma first_moment_terms_total:
  assumes "rectangular d1 n (length lm)" "rectangular d2 n (length lm)"
    "modes_contiguous lm" "k < length lm" "i < n"
  shows "\<exists>Lp Lm Lz. term_Lp d1 d2 i (int k) (fst (lm ! k)) (snd (lm ! k)) = Inr Lp \<and>
     term_Lm d1 d2 i (int k) (fst (lm ! k)) (snd (lm ! k)) = Inr Lm \<and>
     term_Lz d1 d2 i (int k) (fst (lm ! k)) (snd (lm ! k)) = Inr Lz"
  by (simp add: term_values[OF assms])

lemma u_LVector_total:
  assumes r1: "rectangular d1 n (length lm)" and r2: "rectangular d2 n (length lm)"
    and mc: "modes_contiguous lm" and len: "length A = n"
  shows "\<exists>A'. u_LVector d1 d2 lm A = Inr A' \<and> length A' = n"
  unfolding u_LVector_def
proof (rule xrange_loop_total[where P = "\<lambda>A. length A = n", OF len])
  fix k and A :: "complex vec3 list"
  assume k: "k \<in> set [0..<length lm]" and l: "length A = n"
  show "\<exists>s'. xrange_loop [0..<length d1] (LVector_step d1 d2 (int k) (fst (lm ! k)) (snd (lm ! k))) A = Inr s' \<and> length s' = n"
  proof (rule xrange_loop_total[where P = "\<lambda>A. length A = n", OF l])
    fix i and A :: "complex vec3 list"
    assume i: "i \<in> set [0..<length d1]" and l: "length A = n"
    have i': "i < n" using i r1 by (simp add: rectangular_def)
    from first_moment_terms_total[OF r1 r2 mc _ i', of k] k obtain Lp Lm Lz where
      "term_Lp d1 d2 i (int k) (fst (lm ! k)) (snd (lm ! k)) = Inr Lp"
      "term_Lm d1 d2 i (int k) (fst (lm ! k)) (snd (lm ! k)) = Inr Lm"
      "term_Lz d1 d2 i (int k) (fst (lm ! k)) (snd (lm ! k)) = Inr Lz" by auto
    then show "\<exists>s'. LVector_step d1 d2 (int k) (fst (lm ! k)) (snd (lm ! k)) i A = Inr s' \<and> length s' = n"
      using i' l by (simp add: LVector_step_def iadd_eq)
  qed
qed

lemma zeros_vec3_Im: "zeros_vec3 n = map Im_vec3 (zeros_vec3 n)"
  by (simp add: zeros_vec3_def Im_vec3_def)

lemma LdtVector_as_LVector:
  "LdtVector W = map_sum id (map Im_vec3)
       (u_LVector (W_data W) (W_data_dot W) (W_LM W) (zeros_vec3 (n_times W)))"
  unfolding LdtVector_def by (rule rel_sum_map[OF u_LdtVector_related[OF zeros_vec3_Im]])

lemma LdtVector_length: "LdtVector W = Inr Ldt \<Longrightarrow> length Ldt = n_times W"
  using u_LVector_length[of "W_data W" "W_data_dot W" "W_LM W" "zeros_vec3 (n_times W)"]
  by (cases "u_LVector (W_data W) (W_data_dot W) (W_LM W) (zeros_vec3 (n_times W))")
     (auto simp: LdtVector_as_LVector zeros_vec3_def)

lemma LdtVector_total: "well_formed W \<Longrightarrow> \<exists>Ldt. LdtVector W = Inr Ldt"
proof -
  assume "well_formed W"
  then have "rectangular (W_data W) (n_times W) (length (W_LM W))"
    "rectangular (W_data_dot W) (n_times W) (length (W_LM W))" "modes_contiguous (W_LM W)"
    by (simp_all add: well_formed_def)
  from u_LVector_total[OF this, of "zeros_vec3 (n_times W)"]
  show ?thesis by (auto simp: LdtVector_as_LVector zeros_vec3_def)
qed

lemma LdtVector_example: "LdtVector example_W = Inr [\<lparr>v0 = 0, v1 = 0, v2 = 1\<rparr>]"
  by (simp add: LdtVector_def u_LdtVector_def LdtVector_step_def accumulator_defs example_W_def upt_3)

section \<open>One pass of the comparison accumulator\<close>


section \<open>The selection rules of the ladder terms\<close>

text \<open>
  Claim C3, as the code has it.  On a well-formed pair of series, at mode \<open>k\<close> with
  \<open>(ell, m) = lm ! k\<close> and time sample \<open>i\<close>, every ladder term is zero when its shifted
  \<open>m\<close> leaves \<open>[-ell, ell]\<close> and is otherwise the conjugated coefficient of the first series
  at the shifted mode index times the coefficient of the second series at \<open>k\<close> times the
  ladder coefficients (and \<open>m\<close>, \<open>m + 1\<close> or \<open>m - 1\<close> for the products with \<open>Lz\<close>).  Such a
  product may vanish inside the range as well, when a coefficient or that factor is zero.
\<close>

theorem ladder_terms_selection:
  assumes "rectangular d1 n (length lm)" and "rectangular d2 n (length lm)"
    and "modes_contiguous lm" and "k < length lm" and "i < n"
    and "ell = fst (lm ! k)" and "m = snd (lm ! k)"
  shows "term_Lp d1 d2 i (int k) ell m =
      Inr (if m + 1 \<le> ell
        then cnj (d1 ! i ! (k + 1)) * (d2 ! i ! k) * of_real (ladder ell m) else 0)
   \<and> term_Lm d1 d2 i (int k) ell m =
      Inr (if - ell \<le> m - 1
        then cnj (d1 ! i ! (k - 1)) * (d2 ! i ! k) * of_real (ladder ell (- m)) else 0)
   \<and> term_Lz d1 d2 i (int k) ell m = Inr (cnj (d1 ! i ! k) * (d2 ! i ! k) * of_int m)
   \<and> term_LpLp d1 d2 i (int k) ell m =
      Inr (if m + 2 \<le> ell
        then cnj (d1 ! i ! (k + 2)) * (d2 ! i ! k) * of_real (ladder ell (m + 1) * ladder ell m) else 0)
   \<and> term_LpLm d1 d2 i (int k) ell m =
      Inr (if - ell \<le> m - 1
        then cnj (d1 ! i ! k) * (d2 ! i ! k) * of_real (ladder ell (m - 1) * ladder ell (- m)) else 0)
   \<and> term_LmLp d1 d2 i (int k) ell m =
      Inr (if m + 1 \<le> ell
        then cnj (d1 ! i ! k) * (d2 ! i ! k) * of_real (ladder ell (- (m + 1)) * ladder ell m) else 0)
   \<and> term_LmLm d1 d2 i (int k) ell m =
      Inr (if - ell \<le> m - 2
        then cnj (d1 ! i ! (k - 2)) * (d2 ! i ! k) * of_real (ladder ell (- (m - 1)) * ladder ell (- m)) else 0)
   \<and> term_LpLz d1 d2 i (int k) ell m =
      Inr (if m + 1 \<le> ell
        then cnj (d1 ! i ! (k + 1)) * (d2 ! i ! k) * of_real (ladder ell m * of_int m) else 0)
   \<and> term_LzLp d1 d2 i (int k) ell m =
      Inr (if m + 1 \<le> ell
        then cnj (d1 ! i ! (k + 1)) * (d2 ! i ! k) * of_real (of_int (m + 1) * ladder ell m) else 0)
   \<and> term_LmLz d1 d2 i (int k) ell m =
      Inr (if - ell \<le> m - 1
        then cnj (d1 ! i ! (k - 1)) * (d2 ! i ! k) * of_real (ladder ell (- m) * of_int m) else 0)
   \<and> term_LzLm d1 d2 i (int k) ell m =
      Inr (if - ell \<le> m - 1
        then cnj (d1 ! i ! (k - 1)) * (d2 ! i ! k) * of_real (of_int (m - 1) * ladder ell (- m)) else 0)
   \<and> term_LzLz d1 d2 i (int k) ell m =
      Inr (cnj (d1 ! i ! k) * (d2 ! i ! k) * of_real (of_int (m\<^sup>2)))"
  unfolding assms(6,7)
  using term_values[OF assms(1-5)] second_moment_values[OF assms(1-5)]
  by (intro conjI) assumption+


text \<open>
  The mode \<open>(1, 0)\<close> of the second example: \<open>m + 1\<close> stays in range and \<open>m + 2\<close> leaves it.
\<close>

theorem ladder_terms_selection_witness:
  "rectangular example_data 1 (length example_LM) \<and> modes_contiguous example_LM \<and>
   (1::nat) < length example_LM \<and> (0::nat) < 1 \<and>
   (1::int) = fst (example_LM ! 1) \<and> (0::int) = snd (example_LM ! 1) \<and>
   term_Lp example_data example_data 0 (int 1) 1 0 =
     Inr (cnj (example_data ! 0 ! 2) * (example_data ! 0 ! 1) * of_real (ladder 1 0)) \<and>
   term_LpLp example_data example_data 0 (int 1) 1 0 = Inr 0"
proof -
  have h: "rectangular example_data 1 (length example_LM)" "modes_contiguous example_LM"
    "(1::nat) < length example_LM" "(0::nat) < 1"
    "(1::int) = fst (example_LM ! 1)" "(0::int) = snd (example_LM ! 1)"
    by (simp_all add: rectangular_def modes_contiguous_def mode_ok_def example_data_def
        example_LM_def upt_3)
  from ladder_terms_selection[OF h(1) h(1) h(2) h(3) h(4) h(5) h(6)] h
  show ?thesis by (simp add: numeral_2_eq_2)
qed

text \<open>
  The term \<open>L+Lz\<close> of the mode \<open>(1, 0)\<close> is zero although \<open>m + 1 \<le> ell\<close> and no coefficient
  is zero: it carries the factor \<open>m = 0\<close>.
\<close>

theorem term_zero_inside_range:
  "term_LpLz [[1, 2, \<i>]] [[1, 2, \<i>]] 0 1 1 0 = Inr 0 \<and> (0::int) + 1 \<le> 1"
  by (simp add: term_LpLz_def guarded_def bilinear_def getitem2_def getitem_def wrap_index_def)

section \<open>Array operations of the continuity walk\<close>

lemma rbind_Inl_iff: "rbind r f = Inl e \<longleftrightarrow> r = Inl e \<or> (\<exists>v. r = Inr v \<and> f v = Inl e)"
  by (cases r) simp_all

lemma getitem_valid:
  "getitem xs i = (if valid_index (length xs) i then Inr (xs ! nat (wrap_index (length xs) i))
     else Inl IndexOutOfBounds)"
  by (auto simp: getitem_def valid_index_def wrap_index_def)

lemma setitem_valid:
  "setitem xs i v = (if valid_index (length xs) i then Inr (xs[nat (wrap_index (length xs) i) := v])
     else Inl IndexOutOfBounds)"
  by (auto simp: setitem_def valid_index_def wrap_index_def)

lemma negate_sample_eq:
  "negate_sample dpa i =
     (if valid_index (length dpa) i
      then Inr (dpa[nat (wrap_index (length dpa) i) := negated (dpa ! nat (wrap_index (length dpa) i))])
      else Inl IndexOutOfBounds)"
proof (cases "valid_index (length dpa) i")
  case True
  then have "nat (wrap_index (length dpa) i) < length dpa"
    by (auto simp: valid_index_def wrap_index_def)
  then show ?thesis using True
    by (simp add: negate_sample_def imul_def getitem_valid setitem_valid negated_def)
next
  case False
  then show ?thesis by (simp add: negate_sample_def imul_def getitem_valid)
qed

lemma divide_sample_eq:
  "divide_sample dpa i n =
     (if \<not> valid_index (length dpa) i then Inl IndexOutOfBounds
      else if n = 0 then Inl ZeroDivision
      else Inr (dpa[nat (wrap_index (length dpa) i) := divided (dpa ! nat (wrap_index (length dpa) i)) n]))"
proof (cases "valid_index (length dpa) i")
  case True
  then have "nat (wrap_index (length dpa) i) < length dpa"
    by (auto simp: valid_index_def wrap_index_def)
  then show ?thesis using True
    by (simp add: divide_sample_def idiv_def getitem_valid setitem_valid divided_def)
next
  case False
  then show ?thesis by (simp add: divide_sample_def idiv_def getitem_valid)
qed

lemma normalize_sample_eq:
  "normalize_sample dpa i n =
     (if n \<noteq> 0 \<and> n \<noteq> 1
      then (if valid_index (length dpa) i
            then Inr (dpa[nat (wrap_index (length dpa) i) := divided (dpa ! nat (wrap_index (length dpa) i)) n])
            else Inl IndexOutOfBounds)
      else Inr dpa)"
  by (simp add: normalize_sample_def divide_sample_eq)

section \<open>No division by zero in the continuity walk\<close>

lemma xrange_loop_failure:
  assumes "xrange_loop js body s = Inl e"
  shows "\<exists>j \<in> set js. \<exists>s. body j s = Inl e"
  using assms
proof (induction js arbitrary: s)
  case Nil then show ?case by simp
next
  case (Cons j js)
  then show ?case by (auto simp: rbind_Inl_iff)
qed

lemma orient_reference_no_division: "orient_reference dpa dpa_i i \<noteq> Inl ZeroDivision"
  by (auto simp: orient_reference_def rbind_Inl_iff getitem_valid negate_sample_eq split: if_splits)

lemma walk_step_no_division: "walk_step d i st \<noteq> Inl ZeroDivision"
  by (auto simp: walk_step_def rbind_Inl_iff getitem_valid negate_sample_eq normalize_sample_eq
      split: if_splits)

lemma walk_no_division: "xrange_loop js (walk_step d) st \<noteq> Inl ZeroDivision"
  using xrange_loop_failure[of js "walk_step d" st ZeroDivision] walk_step_no_division by blast

lemma u_LLDominantEigenvector_no_division:
  "u_LLDominantEigenvector dpa dpa_i i_index \<noteq> Inl ZeroDivision"
  by (auto simp: u_LLDominantEigenvector_def rbind_Inl_iff orient_reference_no_division
      walk_no_division getitem_valid normalize_sample_eq split: if_splits)

lemma xrange_loop_no_failure:
  assumes "\<And>j s. body j s \<noteq> Inl e"
  shows "xrange_loop js body s \<noteq> Inl e"
  using xrange_loop_failure[of js body s e] assms by blast

lemma LLMatrix_step_no_division: "LLMatrix_step dat k L M i LL \<noteq> Inl ZeroDivision"
  by (auto simp: LLMatrix_step_eq rbind_Inl_iff second_moment_terms_def term_LpLp_def
      term_LpLm_def term_LmLp_def term_LmLm_def term_LpLz_def term_LzLp_def term_LmLz_def
      term_LzLm_def term_LzLz_def guarded_def bilinear_def getitem2_def getitem_valid
      split: if_splits)

lemma u_LLMatrix_no_division: "u_LLMatrix dat lm LL \<noteq> Inl ZeroDivision"
  unfolding u_LLMatrix_def
  by (intro xrange_loop_no_failure LLMatrix_step_no_division)

text \<open>
  Claim C9: the continuity walk never divides by zero, whatever the array, the rough
  direction and the reference index are; each of its divisions by \<open>LastNorm\<close> stands
  under the test that \<open>LastNorm\<close> is neither \<open>0\<close> nor \<open>1\<close>.  The same holds for
  \<open>LLDominantEigenvector\<close> with any eigensolver.
\<close>

theorem continuity_walk_never_divides_by_zero:
  "u_LLDominantEigenvector dpa dpa_i i_index \<noteq> Inl ZeroDivision \<and>
   LLDominantEigenvector eigh W RoughDirection RoughDirectionIndex \<noteq> Inl ZeroDivision \<and>
   normalize_sample dpa j 0 = Inr dpa \<and> normalize_sample dpa j 1 = Inr dpa \<and>
   walk_step d i (dpa, LastNorm) \<noteq> Inl ZeroDivision"
  by (auto simp: LLDominantEigenvector_def rbind_Inl_iff u_LLMatrix_no_division
      u_LLDominantEigenvector_no_division walk_step_no_division normalize_sample_def)

section \<open>The reference index is not validated\<close>

lemma valid_wrap: "valid_index n i \<Longrightarrow> nat (wrap_index n i) < n"
  by (auto simp: valid_index_def wrap_index_def)

lemma orient_reference_total:
  assumes "3 \<le> length dpa_i" "valid_index (length dpa) i"
  shows "\<exists>dpa'. orient_reference dpa dpa_i i = Inr dpa' \<and> length dpa' = length dpa"
  using assms
  by (auto simp: orient_reference_def getitem_valid negate_sample_eq valid_index_def)

lemma walk_step_total:
  assumes "valid_index (length (fst st)) i" "valid_index (length (fst st)) (i - d)"
  shows "\<exists>st'. walk_step d i st = Inr st' \<and> length (fst st') = length (fst st)"
  using assms
  by (auto simp: walk_step_def getitem_valid negate_sample_eq normalize_sample_eq)

lemma walk_total:
  assumes "length (fst st) = n" "\<And>j. j \<in> set js \<Longrightarrow> valid_index n j \<and> valid_index n (j - d)"
  shows "\<exists>st'. xrange_loop js (walk_step d) st = Inr st' \<and> length (fst st') = n"
proof (rule xrange_loop_total[where P = "\<lambda>st. length (fst st) = n", OF assms(1)])
  fix j and s :: "real vec3 list \<times> real"
  assume "j \<in> set js" "length (fst s) = n"
  then show "\<exists>s'. walk_step d j s = Inr s' \<and> length (fst s') = n"
    using walk_step_total[of s j d] assms(2)[of j] by auto
qed

lemma normalize_sample_total:
  assumes "valid_index (length dpa) i"
  shows "\<exists>dpa'. normalize_sample dpa i n = Inr dpa' \<and> length dpa' = length dpa"
  using assms by (auto simp: normalize_sample_eq)

lemma u_LLDominantEigenvector_total:
  assumes r: "3 \<le> length dpa_i" and v: "valid_index (length dpa) i"
  shows "\<exists>out. u_LLDominantEigenvector dpa dpa_i i = Inr out \<and> length out = length dpa"
proof -
  define n where "n = length dpa"
  have n: "0 < n" and lo: "- int n \<le> i" and hi: "i < int n"
    using v by (auto simp: valid_index_def n_def)
  from orient_reference_total[OF r v] obtain d1 where
    1: "orient_reference dpa dpa_i i = Inr d1" and l1: "length d1 = n" by (auto simp: n_def)
  have v1: "valid_index (length d1) i" using v l1 by (simp add: n_def)
  then obtain ref1 where 2: "getitem d1 i = Inr ref1" by (auto simp: getitem_valid)
  have "\<exists>st'. xrange_loop (rev [0..i - 1]) (walk_step (- 1)) (d1, sqrt (sqnorm ref1)) = Inr st'
      \<and> length (fst st') = n"
  proof (rule walk_total)
    show "length (fst (d1, sqrt (sqnorm ref1))) = n" using l1 by simp
    fix j assume "j \<in> set (rev [0..i - 1])"
    then show "valid_index n j \<and> valid_index n (j - - 1)"
      using hi by (auto simp: valid_index_def)
  qed
  then obtain st2 where 3: "xrange_loop (rev [0..i - 1]) (walk_step (- 1)) (d1, sqrt (sqnorm ref1)) = Inr st2"
    and l2: "length (fst st2) = n" by auto
  have "valid_index (length (fst st2)) 0" using n l2 by (simp add: valid_index_def)
  from normalize_sample_total[OF this, of "snd st2"] obtain d3 where
    4: "normalize_sample (fst st2) 0 (snd st2) = Inr d3" and l3: "length d3 = n"
    using l2 by auto
  have "valid_index (length d3) i" using v l3 by (simp add: n_def)
  then obtain ref3 where 5: "getitem d3 i = Inr ref3" by (auto simp: getitem_valid)
  have "\<exists>st'. xrange_loop [i + 1..int (length d3) - 1] (walk_step 1) (d3, sqrt (sqnorm ref3)) = Inr st'
      \<and> length (fst st') = n"
  proof (rule walk_total)
    show "length (fst (d3, sqrt (sqnorm ref3))) = n" using l3 by simp
    fix j assume "j \<in> set [i + 1..int (length d3) - 1]"
    then show "valid_index n j \<and> valid_index n (j - 1)"
      using lo l3 by (auto simp: valid_index_def)
  qed
  then obtain st4 where 6: "xrange_loop [i + 1..int (length d3) - 1] (walk_step 1) (d3, sqrt (sqnorm ref3)) = Inr st4"
    and l4: "length (fst st4) = n" by auto
  have "valid_index (length (fst st4)) (- 1)" using n l4 by (simp add: valid_index_def)
  from normalize_sample_total[OF this, of "snd st4"] obtain d5 where
    7: "normalize_sample (fst st4) (- 1) (snd st4) = Inr d5" and l5: "length d5 = n"
    using l4 by auto
  show ?thesis
    unfolding u_LLDominantEigenvector_def using 1 2 3 4 5 6 7 l5 by (simp add: n_def)
qed

lemma u_LLDominantEigenvector_invalid:
  assumes "\<not> valid_index (length dpa) i"
  shows "u_LLDominantEigenvector dpa dpa_i i = Inl IndexOutOfBounds"
proof -
  have "orient_reference dpa dpa_i i = Inl IndexOutOfBounds"
    using assms by (cases "getitem dpa_i 0") (auto simp: orient_reference_def getitem_valid split: if_splits)
  then show ?thesis by (simp add: u_LLDominantEigenvector_def)
qed

text \<open>
  Claim C8, as the code has it: \<open>LLDominantEigenvector\<close> does not look at the range of the
  reference index.  With a rough direction of three components and a tensor field that
  \<open>_LLMatrix\<close> returns, it returns a field of \<open>n_times\<close> vectors for every index
  \<open>i\<close> with \<open>-n_times \<le> i < n_times\<close>, a negative index counting from the end; only for the
  other indices the first read of the helper leaves the array.
\<close>

theorem LLDominantEigenvector_index_not_validated:
  assumes "3 \<le> length RoughDirection" and "LLMatrix W = Inr LL"
  shows "(- int (n_times W) \<le> i \<and> i < int (n_times W) \<longrightarrow>
           (\<exists>out. LLDominantEigenvector eigh W RoughDirection i = Inr out \<and> length out = n_times W)) \<and>
         (\<not> (- int (n_times W) \<le> i \<and> i < int (n_times W)) \<longrightarrow>
           LLDominantEigenvector eigh W RoughDirection i = Inl IndexOutOfBounds)"
proof -
  have u: "u_LLMatrix (W_data W) (W_LM W) (zeros_mat3 (n_times W)) = Inr LL"
    using assms(2) by (simp add: LLMatrix_def)
  have len: "length LL = n_times W" using u_LLMatrix_length[OF u] by (simp add: zeros_mat3_def)
  define dpa where "dpa = map (\<lambda>A. last_column (snd (eigh A))) LL"
  have l: "length dpa = n_times W" using len by (simp add: dpa_def)
  have eq: "LLDominantEigenvector eigh W RoughDirection i = u_LLDominantEigenvector dpa RoughDirection i"
    using u by (simp add: LLDominantEigenvector_def dpa_def)
  show ?thesis
    using u_LLDominantEigenvector_total[OF assms(1), of dpa i]
      u_LLDominantEigenvector_invalid[of dpa i RoughDirection]
    unfolding eq by (auto simp: valid_index_def l)
qed

lemma LLDominantEigenvector_example_last:
  "LLDominantEigenvector eigh_diagonal example_W [0, 0, 1] (- 1) = Inr [\<lparr>v0 = 0, v1 = 0, v2 = 1\<rparr>]"
  by (simp add: LLDominantEigenvector_def LLMatrix_example[unfolded LLMatrix_def]
      eigh_diagonal_def last_column_def u_LLDominantEigenvector_def orient_reference_def
      getitem_def wrap_index_def normalize_sample_def sqnorm_def walk_step_def sqdist_def)

text \<open>
  On the example series, of one time sample, the reference indices \<open>-1\<close> and \<open>0\<close> are
  accepted and the index \<open>1\<close> leaves the array.
\<close>

theorem LLDominantEigenvector_index_not_validated_witness:
  "3 \<le> length [0, 0, 1 :: real] \<and>
   LLMatrix example_W =
     Inr [\<lparr>e00 = 1 / 2, e01 = 0, e02 = 0, e10 = 0, e11 = 1 / 2, e12 = 0,
           e20 = 0, e21 = 0, e22 = 1\<rparr>] \<and>
   - int (n_times example_W) \<le> - 1 \<and> - 1 < int (n_times example_W) \<and>
   (\<exists>out. LLDominantEigenvector eigh_diagonal example_W [0, 0, 1] (- 1) = Inr out \<and>
      length out = n_times example_W) \<and>
   \<not> 1 < int (n_times example_W) \<and>
   LLDominantEigenvector eigh_diagonal example_W [0, 0, 1] 1 = Inl IndexOutOfBounds"
proof -
  have h: "3 \<le> length [0, 0, 1 :: real]" by simp
  have n: "n_times example_W = 1" by (simp add: n_times_def example_W_def)
  from LLDominantEigenvector_index_not_validated[OF h LLMatrix_example, of "- 1" eigh_diagonal]
    LLDominantEigenvector_index_not_validated[OF h LLMatrix_example, of 1 eigh_diagonal]
  show ?thesis by (simp add: n LLMatrix_example)
qed

text \<open>
  The reference index \<open>-1\<close> is outside \<open>[0, n_times)\<close>, and the operation returns the
  field of the example series.
\<close>

theorem LLDominantEigenvector_accepts_negative_index:
  "LLDominantEigenvector eigh_diagonal example_W [0, 0, 1] (- 1) = Inr [\<lparr>v0 = 0, v1 = 0, v2 = 1\<rparr>]
   \<and> \<not> (0 \<le> (- 1 :: int))"
  by (simp add: LLDominantEigenvector_example_last)

section \<open>The continuity walk computes the correction of the spec\<close>

lemma sqnorm_negated [simp]: "sqnorm (negated v) = sqnorm v"
  by (simp add: sqnorm_def negated_def)

lemma sqnorm_flip [simp]: "sqnorm (flip_if_closer p v) = sqnorm v"
  by (simp add: flip_if_closer_def)

lemma sqnorm_nonneg: "0 \<le> sqnorm v"
  by (simp add: sqnorm_def)

lemma sqnorm_divided: "sqnorm (divided v n) = sqnorm v / n\<^sup>2"
  by (simp add: sqnorm_def divided_def power_divide add_divide_distrib)

lemma sqnorm_normalized: "sqnorm (normalized v) = (if sqnorm v = 0 then 0 else 1)"
proof (cases "sqnorm v = 0")
  case True then show ?thesis by (simp add: normalized_def norm_by_def)
next
  case False
  have "(sqrt (sqnorm v))\<^sup>2 = sqnorm v" using sqnorm_nonneg[of v] by simp
  then show ?thesis using False
    by (auto simp: normalized_def norm_by_def sqnorm_divided)
qed

lemma norm_by_normalized: "norm_by (sqrt (sqnorm (normalized v))) (normalized v) = normalized v"
  by (simp add: sqnorm_normalized norm_by_def)

lemma upto_as_upt: "[int a..int b - 1] = map int [a..<b]"
proof (induction b)
  case 0 then show ?case by simp
next
  case (Suc b)
  show ?case
  proof (cases "a \<le> b")
    case True
    then have "[int a..int (Suc b) - 1] = [int a..int b - 1] @ [int b]"
      using upto_rec2[of "int a" "int b"] by simp
    then show ?thesis using Suc True by simp
  next
    case False then show ?thesis by simp
  qed
qed

lemma list_update_other_id: "i \<noteq> j \<Longrightarrow> xs[i := a, j := xs ! j] = xs[i := a]"
  using list_update_id[of "xs[i := a]" j] by simp

lemma walk_step_towards_start:
  assumes "Suc j < length dpa"
  shows "walk_step (- 1) (int j) (dpa, LN) =
     Inr (dpa[j := flip_if_closer (dpa ! Suc j) (dpa ! j), Suc j := norm_by LN (dpa ! Suc j)],
          sqrt (sqnorm (dpa ! j)))"
proof -
  have i: "int j - - 1 = int (Suc j)" by simp
  show ?thesis using assms unfolding walk_step_def i
    by (simp add: getitem_nat negate_sample_eq normalize_sample_eq valid_index_def wrap_index_def
        flip_if_closer_def norm_by_def list_update_other_id del: of_nat_Suc)
qed

lemma walk_step_towards_end:
  assumes "Suc j < length dpa"
  shows "walk_step 1 (int (Suc j)) (dpa, LN) =
     Inr (dpa[Suc j := flip_if_closer (dpa ! j) (dpa ! Suc j), j := norm_by LN (dpa ! j)],
          sqrt (sqnorm (dpa ! Suc j)))"
proof -
  have i: "int (Suc j) - 1 = int j" by simp
  show ?thesis using assms unfolding walk_step_def i
    by (simp add: getitem_nat negate_sample_eq normalize_sample_eq valid_index_def wrap_index_def
        flip_if_closer_def norm_by_def list_update_other_id del: of_nat_Suc)
qed


lemma drop_after_updates:
  assumes "Suc m < length xs"
  shows "drop (Suc m) (xs[m := a, Suc m := b]) = b # drop (Suc (Suc m)) xs"
proof -
  define ys where "ys = xs[m := a, Suc m := b]"
  have l: "Suc m < length ys" using assms by (simp add: ys_def)
  have "drop (Suc m) ys = ys ! Suc m # drop (Suc (Suc m)) ys"
    using Cons_nth_drop_Suc[OF l] by simp
  moreover have "ys ! Suc m = b" using assms by (simp add: ys_def)
  moreover have "drop (Suc (Suc m)) ys = drop (Suc (Suc m)) xs" by (simp add: ys_def)
  ultimately show ?thesis by (simp add: ys_def)
qed

lemma take_after_updates:
  assumes "Suc m < length xs"
  shows "take (Suc m) (xs[Suc m := a, m := b]) = take m xs @ [b]"
proof -
  define ys where "ys = xs[Suc m := a, m := b]"
  have l: "m < length ys" using assms by (simp add: ys_def)
  have "take (Suc m) ys = take m ys @ [ys ! m]"
    using take_Suc_conv_app_nth[OF l] by simp
  moreover have "ys ! m = b" using assms by (simp add: ys_def)
  moreover have "take m ys = take m xs" by (simp add: ys_def)
  ultimately show ?thesis by (simp add: ys_def)
qed

lemma walk_towards_start:
  assumes "m < length dpa"
  shows "rbind (xrange_loop (map int (rev [0..<m])) (walk_step (- 1)) (dpa, sqrt (sqnorm (dpa ! m))))
           (\<lambda>st. normalize_sample (fst st) 0 (snd st)) =
         Inr (map normalized (rev (continuity_walk (dpa ! m) (rev (take m dpa)))) @
              normalized (dpa ! m) # drop (Suc m) dpa)"
  using assms
proof (induction m arbitrary: dpa)
  case 0
  then obtain x xs where d: "dpa = x # xs" by (cases dpa) auto
  show ?case unfolding d
    by (simp add: normalize_sample_eq valid_index_def wrap_index_def normalized_def norm_by_def)
next
  case (Suc m)
  define c where "c = flip_if_closer (dpa ! Suc m) (dpa ! m)"
  define dpa2 where "dpa2 = dpa[m := c, Suc m := normalized (dpa ! Suc m)]"
  have step: "walk_step (- 1) (int m) (dpa, sqrt (sqnorm (dpa ! Suc m))) =
      Inr (dpa2, sqrt (sqnorm (dpa ! m)))"
    using walk_step_towards_start[OF Suc.prems] by (simp add: dpa2_def c_def normalized_def)
  have m2: "m < length dpa2" using Suc.prems by (simp add: dpa2_def)
  have at: "dpa2 ! m = c" using Suc.prems by (simp add: dpa2_def)
  have n: "sqrt (sqnorm (dpa ! m)) = sqrt (sqnorm (dpa2 ! m))" by (simp add: at c_def)
  have tk: "take m dpa2 = take m dpa" by (simp add: dpa2_def)
  have dr: "drop (Suc m) dpa2 = normalized (dpa ! Suc m) # drop (Suc (Suc m)) dpa"
    unfolding dpa2_def by (rule drop_after_updates[OF Suc.prems])
  have tk2: "rev (take (Suc m) dpa) = dpa ! m # rev (take m dpa)"
    using Suc.prems by (simp add: take_Suc_conv_app_nth)
  have "rbind (xrange_loop (map int (rev [0..<Suc m])) (walk_step (- 1)) (dpa, sqrt (sqnorm (dpa ! Suc m))))
           (\<lambda>st. normalize_sample (fst st) 0 (snd st)) =
        rbind (xrange_loop (map int (rev [0..<m])) (walk_step (- 1)) (dpa2, sqrt (sqnorm (dpa2 ! m))))
           (\<lambda>st. normalize_sample (fst st) 0 (snd st))"
    using step n by (simp del: of_nat_Suc)
  also have "\<dots> = Inr (map normalized (rev (continuity_walk (dpa2 ! m) (rev (take m dpa2)))) @
              normalized (dpa2 ! m) # drop (Suc m) dpa2)"
    by (rule Suc.IH[OF m2])
  also have "\<dots> = Inr (map normalized (rev (continuity_walk (dpa ! Suc m) (rev (take (Suc m) dpa)))) @
              normalized (dpa ! Suc m) # drop (Suc (Suc m)) dpa)"
    unfolding tk2 by (simp add: at tk dr c_def)
  finally show ?case .
qed

lemma walk_towards_end:
  assumes "length dpa = Suc m + k"
  shows "rbind (xrange_loop (map int [Suc m..<length dpa]) (walk_step 1) (dpa, LN))
           (\<lambda>st. normalize_sample (fst st) (- 1) (snd st)) =
         Inr (take m dpa @ norm_by LN (dpa ! m) #
              map normalized (continuity_walk (dpa ! m) (drop (Suc m) dpa)))"
  using assms
proof (induction k arbitrary: m dpa LN)
  case 0
  then have l: "length dpa = Suc m" by simp
  have w: "nat (wrap_index (Suc m) (- 1)) = m" by (simp add: wrap_index_def)
  have a: "dpa[m := v] = take m dpa @ [v]" for v
    using l by (simp add: upd_conv_take_nth_drop)
  have b: "take m dpa @ [dpa ! m] = dpa" using a[of "dpa ! m"] by simp
  show ?case using l
    by (simp add: normalize_sample_eq valid_index_def w norm_by_def a b)
next
  case (Suc k)
  then have lt: "Suc m < length dpa" by simp
  define c where "c = flip_if_closer (dpa ! m) (dpa ! Suc m)"
  define dpa2 where "dpa2 = dpa[Suc m := c, m := norm_by LN (dpa ! m)]"
  have step: "walk_step 1 (int (Suc m)) (dpa, LN) = Inr (dpa2, sqrt (sqnorm (dpa ! Suc m)))"
    using walk_step_towards_end[OF lt] by (simp add: dpa2_def c_def)
  have l2: "length dpa2 = Suc (Suc m) + k" using Suc.prems by (simp add: dpa2_def)
  have len: "length dpa2 = length dpa" by (simp add: dpa2_def)
  have at: "dpa2 ! Suc m = c" using lt by (simp add: dpa2_def)
  have nb: "norm_by (sqrt (sqnorm (dpa ! Suc m))) (flip_if_closer (dpa ! m) (dpa ! Suc m)) =
      normalized (flip_if_closer (dpa ! m) (dpa ! Suc m))"
    by (simp add: normalized_def)
  have tk: "take (Suc m) dpa2 = take m dpa @ [norm_by LN (dpa ! m)]"
    unfolding dpa2_def by (rule take_after_updates[OF lt])
  have dr: "drop (Suc (Suc m)) dpa2 = drop (Suc (Suc m)) dpa" by (simp add: dpa2_def)
  have dr2: "drop (Suc m) dpa = dpa ! Suc m # drop (Suc (Suc m)) dpa"
    using lt by (simp add: Cons_nth_drop_Suc)
  have up: "[Suc m..<length dpa] = Suc m # [Suc (Suc m)..<length dpa]"
    using lt by (simp add: upt_conv_Cons)
  have "rbind (xrange_loop (map int [Suc m..<length dpa]) (walk_step 1) (dpa, LN))
           (\<lambda>st. normalize_sample (fst st) (- 1) (snd st)) =
        rbind (xrange_loop (map int [Suc (Suc m)..<length dpa2]) (walk_step 1)
                 (dpa2, sqrt (sqnorm (dpa ! Suc m))))
           (\<lambda>st. normalize_sample (fst st) (- 1) (snd st))"
    unfolding up len using step by (simp del: of_nat_Suc)
  also have "\<dots> = Inr (take (Suc m) dpa2 @ norm_by (sqrt (sqnorm (dpa ! Suc m))) (dpa2 ! Suc m) #
              map normalized (continuity_walk (dpa2 ! Suc m) (drop (Suc (Suc m)) dpa2)))"
    by (rule Suc.IH[OF l2])
  also have "\<dots> = Inr (take m dpa @ norm_by LN (dpa ! m) #
              map normalized (continuity_walk (dpa ! m) (drop (Suc m) dpa)))"
    unfolding dr2 by (simp add: at nb tk dr c_def)
  finally show ?case .
qed


lemma length_continuity_walk [simp]: "length (continuity_walk p xs) = length xs"
  by (induction xs arbitrary: p) simp_all

lemma orient_reference_eq:
  assumes "3 \<le> length dpa_i" "i0 < length dpa"
  shows "orient_reference dpa dpa_i (int i0) = Inr (dpa[i0 := oriented dpa_i (dpa ! i0)])"
proof -
  have "dpa_i \<noteq> []" using assms(1) by auto
  then show ?thesis using assms
    by (simp add: orient_reference_def getitem_valid negate_sample_eq valid_index_def
        wrap_index_def oriented_def)
qed

lemma u_LLDominantEigenvector_corrected:
  assumes "3 \<le> length dpa_i" and "i0 < length dpa"
  shows "u_LLDominantEigenvector dpa dpa_i (int i0) = Inr (continuity_corrected dpa dpa_i i0)"
proof -
  define ref where "ref = oriented dpa_i (dpa ! i0)"
  define d1 where "d1 = dpa[i0 := ref]"
  define before where "before = map normalized (rev (continuity_walk ref (rev (take i0 dpa))))"
  define d3 where "d3 = before @ normalized ref # drop (Suc i0) dpa"
  have lb: "length before = i0" using assms(2) by (simp add: before_def)
  have 1: "orient_reference dpa dpa_i (int i0) = Inr d1"
    using orient_reference_eq[OF assms] by (simp add: d1_def ref_def)
  have i1: "i0 < length d1" using assms(2) by (simp add: d1_def)
  have r1: "d1 ! i0 = ref" using assms(2) by (simp add: d1_def)
  have 2: "getitem d1 (int i0) = Inr ref" using i1 r1 by (simp add: getitem_nat)
  have range1: "rev [0..int i0 - 1] = map int (rev [0..<i0])"
    using upto_as_upt[of 0 i0] by (simp add: rev_map)
  have "rbind (xrange_loop (rev [0..int i0 - 1]) (walk_step (- 1)) (d1, sqrt (sqnorm ref)))
          (\<lambda>st. normalize_sample (fst st) 0 (snd st)) = Inr d3"
    using walk_towards_start[OF i1] unfolding range1 r1
    by (simp add: d3_def before_def d1_def)
  then obtain st2 where
    3: "xrange_loop (rev [0..int i0 - 1]) (walk_step (- 1)) (d1, sqrt (sqnorm ref)) = Inr st2"
    and 4: "normalize_sample (fst st2) 0 (snd st2) = Inr d3"
    by (auto simp: rbind_Inr_iff)
  have l3: "length d3 = length dpa" using assms(2) lb by (simp add: d3_def)
  have r3: "d3 ! i0 = normalized ref" using lb by (simp add: d3_def nth_append)
  have 5: "getitem d3 (int i0) = Inr (normalized ref)"
    using assms(2) l3 r3 by (simp add: getitem_nat)
  have range2: "[int i0 + 1..int (length d3) - 1] = map int [Suc i0..<length d3]"
    using upto_as_upt[of "Suc i0" "length d3"] by (simp add: add.commute)
  have k: "length d3 = Suc i0 + (length dpa - Suc i0)" using assms(2) l3 by simp
  have t3: "take i0 d3 = before" using lb by (simp add: d3_def)
  have dr3: "drop (Suc i0) d3 = drop (Suc i0) dpa" using lb by (simp add: d3_def)
  have "rbind (xrange_loop [int i0 + 1..int (length d3) - 1] (walk_step 1)
                 (d3, sqrt (sqnorm (normalized ref))))
          (\<lambda>st. normalize_sample (fst st) (- 1) (snd st)) =
        Inr (continuity_corrected dpa dpa_i i0)"
    using walk_towards_end[OF k, of "sqrt (sqnorm (normalized ref))"] unfolding range2
    by (simp add: r3 t3 dr3 norm_by_normalized continuity_corrected_def before_def ref_def)
  then obtain st4 where
    6: "xrange_loop [int i0 + 1..int (length d3) - 1] (walk_step 1)
          (d3, sqrt (sqnorm (normalized ref))) = Inr st4"
    and 7: "normalize_sample (fst st4) (- 1) (snd st4) = Inr (continuity_corrected dpa dpa_i i0)"
    by (auto simp: rbind_Inr_iff)
  show ?thesis unfolding u_LLDominantEigenvector_def using 1 2 3 4 5 6 7 by simp
qed

text \<open>
  Claim C4: for a reference index inside the array and a rough direction of three
  components, the helper returns the correction described by the spec: the reference
  candidate flipped iff its dot product with the rough direction is negative, every other
  candidate flipped iff its squared distance to the neighbour corrected before it exceeds
  its own squared norm, on the walk to the start and on the walk to the end, and every
  sample divided by its norm one pass later, the last one after its walk.
\<close>

theorem continuity_walk_refines_spec:
  assumes "3 \<le> length dpa_i" and "i0 < length dpa"
  shows "u_LLDominantEigenvector dpa dpa_i (int i0) = Inr (continuity_corrected dpa dpa_i i0)"
  using assms by (rule u_LLDominantEigenvector_corrected)

lemma negated_eval: "negated \<lparr>v0 = a, v1 = b, v2 = c\<rparr> = \<lparr>v0 = - a, v1 = - b, v2 = - c\<rparr>"
  by (simp add: negated_def)

lemma divided_eval: "divided \<lparr>v0 = a, v1 = b, v2 = c\<rparr> n = \<lparr>v0 = a / n, v1 = b / n, v2 = c / n\<rparr>"
  by (simp add: divided_def)

lemma continuity_corrected_example:
  "continuity_corrected example_dpa [0, 0, 1] (Suc 0) =
     [\<lparr>v0 = 0, v1 = 0, v2 = 1\<rparr>, \<lparr>v0 = 0, v1 = 0, v2 = 1\<rparr>, \<lparr>v0 = 0, v1 = 0, v2 = 1\<rparr>]"
  by (simp add: continuity_corrected_def example_dpa_def oriented_def normalized_def norm_by_def
      flip_if_closer_def sqnorm_def sqdist_def negated_eval divided_eval)

text \<open>
  Three samples along the third axis with the reference in the middle: both neighbours
  are flipped and all three are normalized.
\<close>

theorem continuity_walk_refines_spec_witness:
  "3 \<le> length [0, 0, 1 :: real] \<and> 1 < length example_dpa \<and>
   u_LLDominantEigenvector example_dpa [0, 0, 1] (int 1) =
     Inr [\<lparr>v0 = 0, v1 = 0, v2 = 1\<rparr>, \<lparr>v0 = 0, v1 = 0, v2 = 1\<rparr>, \<lparr>v0 = 0, v1 = 0, v2 = 1\<rparr>]"
proof -
  have h: "3 \<le> length [0, 0, 1 :: real]" "1 < length example_dpa"
    by (simp_all add: example_dpa_def)
  from continuity_walk_refines_spec[OF h] h show ?thesis
    by (simp add: continuity_corrected_example)
qed

section \<open>The corrected field has unit norm\<close>

lemma continuity_walk_unit:
  "list_all2 unit_or_zero xs (map normalized (continuity_walk p xs))"
  by (induction xs arbitrary: p) (simp_all add: unit_or_zero_def sqnorm_normalized)

lemma continuity_walk_unit_rev:
  "list_all2 unit_or_zero xs (map normalized (rev (continuity_walk p (rev xs))))"
proof -
  have "list_all2 unit_or_zero (rev (rev xs)) (rev (map normalized (continuity_walk p (rev xs))))"
    unfolding list_all2_rev by (rule continuity_walk_unit)
  then show ?thesis by (simp add: rev_map)
qed

lemma sqnorm_oriented [simp]: "sqnorm (oriented rough v) = sqnorm v"
  by (simp add: oriented_def)

lemma continuity_corrected_unit:
  assumes "i0 < length dpa"
  shows "list_all2 unit_or_zero dpa (continuity_corrected dpa rough i0)"
proof -
  have split: "dpa = take i0 dpa @ [dpa ! i0] @ drop (Suc i0) dpa"
    using assms by (simp add: id_take_nth_drop[symmetric])
  have 1: "list_all2 unit_or_zero (take i0 dpa)
      (map normalized (rev (continuity_walk (oriented rough (dpa ! i0)) (rev (take i0 dpa)))))"
    by (rule continuity_walk_unit_rev)
  have 2: "list_all2 unit_or_zero [dpa ! i0] [normalized (oriented rough (dpa ! i0))]"
    by (simp add: unit_or_zero_def sqnorm_normalized)
  have 3: "list_all2 unit_or_zero (drop (Suc i0) dpa)
      (map normalized (continuity_walk (normalized (oriented rough (dpa ! i0))) (drop (Suc i0) dpa)))"
    by (rule continuity_walk_unit)
  have "list_all2 unit_or_zero (take i0 dpa @ [dpa ! i0] @ drop (Suc i0) dpa)
      (continuity_corrected dpa rough i0)"
    unfolding continuity_corrected_def by (intro list_all2_appendI 1 2 3)
  then show ?thesis using split by simp
qed

text \<open>
  Claim C6.  Let the eigensolver return a nonzero last eigenvector for every tensor that
  is not zero, let the rough direction have three components and the reference index lie
  in \<open>[0, n_times)\<close>.  Then, on a series whose tensor field \<open>LLMatrix\<close> returns,
  \<open>LLDominantEigenvector\<close> returns one vector per time sample, and the vector has Euclidean
  norm \<open>1\<close> at every time sample whose tensor is not zero.
\<close>

theorem LLDominantEigenvector_unit_norm:
  assumes "\<And>A. \<not> is_zero_tensor A \<Longrightarrow> sqnorm (last_column (snd (eigh A))) \<noteq> 0"
    and "3 \<le> length RoughDirection"
    and "0 \<le> idx" and "idx < int (n_times W)"
    and "LLMatrix W = Inr LL"
  shows "\<exists>out. LLDominantEigenvector eigh W RoughDirection idx = Inr out \<and>
           length out = n_times W \<and>
           (\<forall>k < n_times W. \<not> is_zero_tensor (LL ! k) \<longrightarrow> sqrt (sqnorm (out ! k)) = 1)"
proof -
  have u: "u_LLMatrix (W_data W) (W_LM W) (zeros_mat3 (n_times W)) = Inr LL"
    using assms(5) by (simp add: LLMatrix_def)
  have len: "length LL = n_times W" using u_LLMatrix_length[OF u] by (simp add: zeros_mat3_def)
  define dpa where "dpa = map (\<lambda>A. last_column (snd (eigh A))) LL"
  have l: "length dpa = n_times W" using len by (simp add: dpa_def)
  define i0 where "i0 = nat idx"
  have i0: "i0 < length dpa" and idx: "idx = int i0" using assms(3,4) l by (simp_all add: i0_def)
  define out where "out = continuity_corrected dpa RoughDirection i0"
  have eq: "LLDominantEigenvector eigh W RoughDirection idx = Inr out"
    using u u_LLDominantEigenvector_corrected[OF assms(2) i0]
    by (simp add: LLDominantEigenvector_def dpa_def idx out_def)
  have rel: "list_all2 unit_or_zero dpa out"
    unfolding out_def by (rule continuity_corrected_unit[OF i0])
  have lo: "length out = n_times W" using list_all2_lengthD[OF rel] l by simp
  have "sqrt (sqnorm (out ! k)) = 1" if k: "k < n_times W" and nz: "\<not> is_zero_tensor (LL ! k)" for k
  proof -
    have "unit_or_zero (dpa ! k) (out ! k)" using rel k l by (simp add: list_all2_nthD)
    moreover have "sqnorm (dpa ! k) \<noteq> 0" using assms(1)[OF nz] k len by (simp add: dpa_def)
    ultimately show ?thesis by (simp add: unit_or_zero_def)
  qed
  then show ?thesis using eq lo by blast
qed


lemma LLDominantEigenvector_example_first:
  "LLDominantEigenvector eigh_diagonal example_W [0, 0, 1] 0 = Inr [\<lparr>v0 = 0, v1 = 0, v2 = 1\<rparr>]"
  by (simp add: LLDominantEigenvector_def LLMatrix_example[unfolded LLMatrix_def]
      eigh_diagonal_def last_column_def u_LLDominantEigenvector_def orient_reference_def
      getitem_def wrap_index_def normalize_sample_def sqnorm_def walk_step_def sqdist_def)

text \<open>
  The example series with an eigensolver whose last eigenvector is always the third unit
  vector: the tensor is not zero and the returned vector has norm one.
\<close>

theorem LLDominantEigenvector_unit_norm_witness:
  "(\<forall>A. sqnorm (last_column (snd (eigh_diagonal A))) \<noteq> 0) \<and>
   3 \<le> length [0, 0, 1 :: real] \<and> (0::int) \<le> 0 \<and> 0 < int (n_times example_W) \<and>
   LLMatrix example_W =
     Inr [\<lparr>e00 = 1 / 2, e01 = 0, e02 = 0, e10 = 0, e11 = 1 / 2, e12 = 0,
           e20 = 0, e21 = 0, e22 = 1\<rparr>] \<and>
   \<not> is_zero_tensor \<lparr>e00 = 1 / 2, e01 = 0, e02 = 0, e10 = 0, e11 = 1 / 2, e12 = 0,
           e20 = 0, e21 = 0, e22 = 1\<rparr> \<and>
   LLDominantEigenvector eigh_diagonal example_W [0, 0, 1] 0 = Inr [\<lparr>v0 = 0, v1 = 0, v2 = 1\<rparr>] \<and>
   sqrt (sqnorm \<lparr>v0 = 0, v1 = 0, v2 = 1\<rparr>) = 1"
proof -
  have e: "sqnorm (last_column (snd (eigh_diagonal A))) \<noteq> 0" for A
    by (simp add: eigh_diagonal_def last_column_def sqnorm_def)
  have h: "3 \<le> length [0, 0, 1 :: real]" "(0::int) \<le> 0" "0 < int (n_times example_W)"
    by (simp_all add: n_times_def example_W_def)
  from LLDominantEigenvector_unit_norm[of eigh_diagonal, OF e h LLMatrix_example]
  show ?thesis using e h
    by (simp add: LLMatrix_example LLDominantEigenvector_example_first is_zero_tensor_def
        sqnorm_def)
qed

section \<open>The angular velocity solves the linear system\<close>

lemma vec3_eqI:
  fixes a b :: "'a vec3"
  assumes "v0 a = v0 b" "v1 a = v1 b" "v2 a = v2 b"
  shows "a = b"
  using assms by simp

lemma solve3_correct:
  assumes "solve3 A b = Inr x"
  shows "mat_vec A x = b"
proof -
  have d: "det3 A \<noteq> 0" using assms by (auto simp: solve3_def split: if_splits)
  have x: "x = \<lparr>v0 = det3 (A\<lparr>e00 := v0 b, e10 := v1 b, e20 := v2 b\<rparr>) / det3 A,
                v1 = det3 (A\<lparr>e01 := v0 b, e11 := v1 b, e21 := v2 b\<rparr>) / det3 A,
                v2 = det3 (A\<lparr>e02 := v0 b, e12 := v1 b, e22 := v2 b\<rparr>) / det3 A\<rparr>"
    using assms d by (simp add: solve3_def)
  have 0: "v0 (mat_vec A x) = v0 b"
    unfolding x mat_vec_def using d
    by (simp add: field_simps) (simp add: det3_def algebra_simps)
  have 1: "v1 (mat_vec A x) = v1 b"
    unfolding x mat_vec_def using d
    by (simp add: field_simps) (simp add: det3_def algebra_simps)
  have 2: "v2 (mat_vec A x) = v2 b"
    unfolding x mat_vec_def using d
    by (simp add: field_simps) (simp add: det3_def algebra_simps)
  show ?thesis by (rule vec3_eqI) (simp_all add: 0 1 2)
qed

lemma linalg_solve_correct:
  "linalg_solve As bs = Inr xs \<Longrightarrow>
     length xs = length As \<and> length bs = length As \<and>
     (\<forall>i < length As. mat_vec (As ! i) (xs ! i) = bs ! i)"
proof (induction As bs arbitrary: xs rule: linalg_solve.induct)
  case 1 then show ?case by simp
next
  case (2 A As b bs)
  from "2.prems" obtain x ys where x: "solve3 A b = Inr x" and ys: "linalg_solve As bs = Inr ys"
    and xs: "xs = x # ys" by (auto simp: rbind_Inr_iff)
  from "2.IH"[OF ys] solve3_correct[OF x] show ?case
    unfolding xs by (auto simp: nth_Cons split: nat.splits)
qed simp_all

lemma linalg_solve_total:
  "length As = length bs \<Longrightarrow> \<forall>A \<in> set As. det3 A \<noteq> 0 \<Longrightarrow> \<exists>xs. linalg_solve As bs = Inr xs"
proof (induction As bs rule: linalg_solve.induct)
  case 1 then show ?case by simp
next
  case (2 A As b bs)
  then obtain x where x: "solve3 A b = Inr x" by (auto simp: solve3_def)
  from "2.IH" "2.prems" obtain ys where "linalg_solve As bs = Inr ys" by auto
  then show ?case using x by simp
qed simp_all

lemma mat_vec_neg: "mat_vec A (neg_vec3 x) = neg_vec3 (mat_vec A x)"
  by (simp add: mat_vec_def neg_vec3_def)

lemma neg_vec3_neg: "neg_vec3 (neg_vec3 x) = x"
  by (rule vec3_eqI) (simp_all add: neg_vec3_def)

lemma LLMatrix_length: "LLMatrix W = Inr LL \<Longrightarrow> length LL = n_times W"
  using u_LLMatrix_length[of "W_data W" "W_LM W" "zeros_mat3 (n_times W)" LL]
  by (simp add: LLMatrix_def zeros_mat3_def)

text \<open>
  Claim C5: whenever \<open>angular_velocity\<close> returns \<open>omega\<close>, the vector field \<open>\<langle>Ldt\<rangle>\<close> and the
  tensor field \<open>\<langle>LL\<rangle>\<close> of the same series exist, \<open>omega\<close> has one vector per time sample, and
  at every time sample \<open>\<langle>Ldt\<rangle> = - \<langle>LL\<rangle> . omega\<close>.  It does return on a well-formed series
  whose tensor is regular at every time sample.
\<close>

theorem angular_velocity_solves_system:
  "(\<forall>omega. angular_velocity W = Inr omega \<longrightarrow>
      (\<exists>l ll. LdtVector W = Inr l \<and> LLMatrix W = Inr ll \<and> length omega = n_times W \<and>
         (\<forall>i < n_times W. l ! i = neg_vec3 (mat_vec (ll ! i) (omega ! i))))) \<and>
   (\<forall>ll. well_formed W \<and> LLMatrix W = Inr ll \<and> (\<forall>A \<in> set ll. det3 A \<noteq> 0) \<longrightarrow>
      (\<exists>omega. angular_velocity W = Inr omega))"
proof (intro conjI allI impI)
  fix omega assume "angular_velocity W = Inr omega"
  then obtain l ll x where l: "LdtVector W = Inr l" and ll: "LLMatrix W = Inr ll"
    and x: "linalg_solve ll l = Inr x" and om: "omega = map neg_vec3 x"
    by (auto simp: angular_velocity_def rbind_Inr_iff)
  have n: "length ll = n_times W" by (rule LLMatrix_length[OF ll])
  from linalg_solve_correct[OF x] have lx: "length x = length ll"
    and sol: "\<forall>i < length ll. mat_vec (ll ! i) (x ! i) = l ! i" by simp_all
  have "l ! i = neg_vec3 (mat_vec (ll ! i) (omega ! i))" if "i < n_times W" for i
    using that sol lx n by (simp add: om mat_vec_neg neg_vec3_neg)
  then show "\<exists>l ll. LdtVector W = Inr l \<and> LLMatrix W = Inr ll \<and> length omega = n_times W \<and>
         (\<forall>i < n_times W. l ! i = neg_vec3 (mat_vec (ll ! i) (omega ! i)))"
    using l ll lx n by (simp add: om)
next
  fix ll assume a: "well_formed W \<and> LLMatrix W = Inr ll \<and> (\<forall>A \<in> set ll. det3 A \<noteq> 0)"
  then obtain l where l: "LdtVector W = Inr l" using LdtVector_total by blast
  have "length ll = length l" using LLMatrix_length[of W ll] LdtVector_length[OF l] a by simp
  from linalg_solve_total[OF this] a obtain x where "linalg_solve ll l = Inr x" by blast
  then show "\<exists>omega. angular_velocity W = Inr omega"
    using l a by (simp add: angular_velocity_def)
qed

lemma angular_velocity_example:
  "angular_velocity example_W = Inr [\<lparr>v0 = 0, v1 = 0, v2 = - 1\<rparr>]"
  by (simp add: angular_velocity_def LdtVector_example LLMatrix_example solve3_def det3_def
      neg_vec3_def)

text \<open>
  The example series turns about the third axis: \<open>\<langle>Ldt\<rangle> = (0, 0, 1)\<close>, the tensor is
  diagonal with entries \<open>1/2, 1/2, 1\<close>, and \<open>omega = (0, 0, -1)\<close>.
\<close>

theorem angular_velocity_solves_system_witness:
  "angular_velocity example_W = Inr [\<lparr>v0 = 0, v1 = 0, v2 = - 1\<rparr>] \<and>
   LdtVector example_W = Inr [\<lparr>v0 = 0, v1 = 0, v2 = 1\<rparr>] \<and>
   LLMatrix example_W =
     Inr [\<lparr>e00 = 1 / 2, e01 = 0, e02 = 0, e10 = 0, e11 = 1 / 2, e12 = 0,
           e20 = 0, e21 = 0, e22 = 1\<rparr>] \<and>
   \<lparr>v0 = 0, v1 = 0, v2 = 1\<rparr> =
     neg_vec3 (mat_vec \<lparr>e00 = 1 / 2, e01 = 0, e02 = 0, e10 = 0, e11 = 1 / 2, e12 = 0,
           e20 = 0, e21 = 0, e22 = 1\<rparr> \<lparr>v0 = 0, v1 = 0, v2 = - 1\<rparr>) \<and>
   well_formed example_W \<and>
   det3 \<lparr>e00 = 1 / 2, e01 = 0, e02 = 0, e10 = 0, e11 = 1 / 2, e12 = 0,
           e20 = 0, e21 = 0, e22 = 1\<rparr> \<noteq> 0"
  using angular_velocity_solves_system[of example_W] example_W_well_formed
  by (simp add: angular_velocity_example LdtVector_example LLMatrix_example neg_vec3_def
      mat_vec_def det3_def)

section \<open>The alignment window is not checked\<close>



lemma static_W_well_formed: "well_formed static_W"
  by (simp add: well_formed_def static_W_def rectangular_def modes_contiguous_def mode_ok_def
      n_times_def upt_3 list_all_iff)

















section \<open>The nested loops add up one contribution per mode\<close>

lemma xrange_loop_append:
  "xrange_loop (xs @ ys) body s = rbind (xrange_loop xs body s) (xrange_loop ys body)"
proof (induction xs arbitrary: s)
  case Nil then show ?case by simp
next
  case (Cons x xs)
  then show ?case by (cases "body x s") simp_all
qed

lemma time_loop_adds:
  fixes f :: "'r \<Rightarrow> 'a::comm_monoid_add"
  assumes step: "\<And>i A. i < n \<Longrightarrow> length A = n \<Longrightarrow>
      \<exists>r. body i A = Inr (A[i := r]) \<and> f r = f (A ! i) + g i"
    and len: "length A = n" and m: "n = m + j"
  shows "\<exists>A'. xrange_loop [m..<n] body A = Inr A' \<and> length A' = n \<and>
           (\<forall>i < n. f (A' ! i) = (if m \<le> i then f (A ! i) + g i else f (A ! i)))"
  using len m
proof (induction j arbitrary: m A)
  case 0
  then show ?case by simp
next
  case (Suc j)
  have mn: "m < n" using Suc.prems(2) by simp
  from step[OF mn Suc.prems(1)] obtain r where b: "body m A = Inr (A[m := r])"
    and r: "f r = f (A ! m) + g m" by blast
  have l1: "length (A[m := r]) = n" using Suc.prems(1) by simp
  have n1: "n = Suc m + j" using Suc.prems(2) by simp
  from Suc.IH[OF l1 n1] obtain A' where lp: "xrange_loop [Suc m..<n] body (A[m := r]) = Inr A'"
    and l': "length A' = n"
    and v: "\<forall>i < n. f (A' ! i) = (if Suc m \<le> i then f (A[m := r] ! i) + g i else f (A[m := r] ! i))"
    by blast
  have up: "[m..<n] = m # [Suc m..<n]" using mn by (simp add: upt_conv_Cons)
  have "f (A' ! i) = (if m \<le> i then f (A ! i) + g i else f (A ! i))" if "i < n" for i
    using v that r Suc.prems(1) mn by (cases "i = m") (auto simp: nth_list_update)
  then show ?case unfolding up using b lp l' by simp
qed

lemma mode_loop_adds:
  fixes f :: "'r \<Rightarrow> 'a::comm_monoid_add"
  assumes step: "\<And>k i A. k < K \<Longrightarrow> i < n \<Longrightarrow> length A = n \<Longrightarrow>
      \<exists>r. body k i A = Inr (A[i := r]) \<and> f r = f (A ! i) + g k i"
    and len: "length A = n" and J: "J \<le> K"
  shows "\<exists>A'. xrange_loop [0..<J] (\<lambda>k. xrange_loop [0..<n] (body k)) A = Inr A' \<and> length A' = n \<and>
           (\<forall>i < n. f (A' ! i) = f (A ! i) + (\<Sum>k<J. g k i))"
  using J
proof (induction J)
  case 0
  then show ?case using len by simp
next
  case (Suc J)
  then have J: "J < K" by simp
  from Suc obtain A1 where l1: "xrange_loop [0..<J] (\<lambda>k. xrange_loop [0..<n] (body k)) A = Inr A1"
    and n1: "length A1 = n" and v1: "\<forall>i < n. f (A1 ! i) = f (A ! i) + (\<Sum>k<J. g k i)"
    by auto
  have "\<exists>A'. xrange_loop [0..<n] (body J) A1 = Inr A' \<and> length A' = n \<and>
           (\<forall>i < n. f (A' ! i) = (if 0 \<le> i then f (A1 ! i) + g J i else f (A1 ! i)))"
    by (rule time_loop_adds[where j = n, OF step[OF J] n1]) simp_all
  then obtain A2 where l2: "xrange_loop [0..<n] (body J) A1 = Inr A2" and n2: "length A2 = n"
    and v2: "\<forall>i < n. f (A2 ! i) = f (A1 ! i) + g J i" by auto
  have "f (A2 ! i) = f (A ! i) + (\<Sum>k<Suc J. g k i)" if "i < n" for i
    using v1 v2 that by (simp add: add.assoc)
  then show ?case using l1 l2 n2 by (simp add: xrange_loop_append)
qed

section \<open>The derivative moment vector as a sum over the modes\<close>

lemma LdtVector_step_adds:
  assumes r1: "rectangular dat n (length lm)" and r2: "rectangular datadot n (length lm)"
    and mc: "modes_contiguous lm" and k: "k < length lm" and i: "i < n" and l: "length A = n"
  shows "\<exists>r. LdtVector_step dat datadot (int k) (fst (lm ! k)) (snd (lm ! k)) i A = Inr (A[i := r]) \<and>
     v0 r = v0 (A ! i) + 0.5 * (Im (Lp_value dat datadot lm i k) + Im (Lm_value dat datadot lm i k)) \<and>
     v1 r = v1 (A ! i) + - 0.5 * (Re (Lp_value dat datadot lm i k) - Re (Lm_value dat datadot lm i k)) \<and>
     v2 r = v2 (A ! i) + Im (Lz_value dat datadot lm i k)"
proof -
  define Lp where "Lp = Lp_value dat datadot lm i k"
  define Lm where "Lm = Lm_value dat datadot lm i k"
  define Lz where "Lz = Lz_value dat datadot lm i k"
  have t: "term_Lp dat datadot i (int k) (fst (lm ! k)) (snd (lm ! k)) = Inr Lp"
    "term_Lm dat datadot i (int k) (fst (lm ! k)) (snd (lm ! k)) = Inr Lm"
    "term_Lz dat datadot i (int k) (fst (lm ! k)) (snd (lm ! k)) = Inr Lz"
    using term_values[OF r1 r2 mc k i]
    by (simp_all add: Lp_def Lm_def Lz_def Lp_value_def Lm_value_def Lz_value_def)
  define r where "r = v2_update (\<lambda>old. old + Im Lz)
     (v1_update (\<lambda>old. old + - 0.5 * (Re Lp - Re Lm))
     (v0_update (\<lambda>old. old + 0.5 * (Im Lp + Im Lm)) (A ! i)))"
  have "LdtVector_step dat datadot (int k) (fst (lm ! k)) (snd (lm ! k)) i A = Inr (A[i := r])"
    unfolding LdtVector_step_def t rbind_Inr using i l by (simp add: iadd_eq r_def)
  moreover have "v0 r = v0 (A ! i) + 0.5 * (Im Lp + Im Lm)"
    "v1 r = v1 (A ! i) + - 0.5 * (Re Lp - Re Lm)" "v2 r = v2 (A ! i) + Im Lz"
    by (simp_all add: r_def)
  ultimately show ?thesis unfolding Lp_def Lm_def Lz_def by blast
qed

lemma u_LdtVector_sums:
  assumes r1: "rectangular dat n (length lm)" and r2: "rectangular datadot n (length lm)"
    and mc: "modes_contiguous lm" and l: "length A = n"
  shows "\<exists>A'. u_LdtVector dat datadot lm A = Inr A' \<and> length A' = n \<and>
     (\<forall>i < n.
        v0 (A' ! i) = v0 (A ! i) +
          (\<Sum>k<length lm. 0.5 * (Im (Lp_value dat datadot lm i k) + Im (Lm_value dat datadot lm i k))) \<and>
        v1 (A' ! i) = v1 (A ! i) +
          (\<Sum>k<length lm. - 0.5 * (Re (Lp_value dat datadot lm i k) - Re (Lm_value dat datadot lm i k))) \<and>
        v2 (A' ! i) = v2 (A ! i) + (\<Sum>k<length lm. Im (Lz_value dat datadot lm i k)))"
proof -
  have n: "length dat = n" using r1 by (simp add: rectangular_def)
  note st = LdtVector_step_adds[OF r1 r2 mc]
  have a: "\<exists>A'. xrange_loop [0..<length lm] (\<lambda>k. xrange_loop [0..<n]
        (LdtVector_step dat datadot (int k) (fst (lm ! k)) (snd (lm ! k)))) A = Inr A' \<and> length A' = n \<and>
      (\<forall>i < n. v0 (A' ! i) = v0 (A ! i) +
        (\<Sum>k<length lm. 0.5 * (Im (Lp_value dat datadot lm i k) + Im (Lm_value dat datadot lm i k))))"
    by (rule mode_loop_adds[where K = "length lm", OF _ l]) (use st in blast, simp)
  have b: "\<exists>A'. xrange_loop [0..<length lm] (\<lambda>k. xrange_loop [0..<n]
        (LdtVector_step dat datadot (int k) (fst (lm ! k)) (snd (lm ! k)))) A = Inr A' \<and> length A' = n \<and>
      (\<forall>i < n. v1 (A' ! i) = v1 (A ! i) +
        (\<Sum>k<length lm. - 0.5 * (Re (Lp_value dat datadot lm i k) - Re (Lm_value dat datadot lm i k))))"
    by (rule mode_loop_adds[where K = "length lm", OF _ l]) (use st in blast, simp)
  have c: "\<exists>A'. xrange_loop [0..<length lm] (\<lambda>k. xrange_loop [0..<n]
        (LdtVector_step dat datadot (int k) (fst (lm ! k)) (snd (lm ! k)))) A = Inr A' \<and> length A' = n \<and>
      (\<forall>i < n. v2 (A' ! i) = v2 (A ! i) + (\<Sum>k<length lm. Im (Lz_value dat datadot lm i k)))"
    by (rule mode_loop_adds[where K = "length lm", OF _ l]) (use st in blast, simp)
  from a b c show ?thesis unfolding u_LdtVector_def n by auto
qed

lemma LdtVector_sums:
  assumes "well_formed W"
  shows "\<exists>Ldt. LdtVector W = Inr Ldt \<and> length Ldt = n_times W \<and>
     (\<forall>i < n_times W.
        v0 (Ldt ! i) = (\<Sum>k<length (W_LM W).
           0.5 * (Im (Lp_value (W_data W) (W_data_dot W) (W_LM W) i k) +
                  Im (Lm_value (W_data W) (W_data_dot W) (W_LM W) i k))) \<and>
        v1 (Ldt ! i) = (\<Sum>k<length (W_LM W).
           - 0.5 * (Re (Lp_value (W_data W) (W_data_dot W) (W_LM W) i k) -
                    Re (Lm_value (W_data W) (W_data_dot W) (W_LM W) i k))) \<and>
        v2 (Ldt ! i) = (\<Sum>k<length (W_LM W). Im (Lz_value (W_data W) (W_data_dot W) (W_LM W) i k)))"
proof -
  from assms have r: "rectangular (W_data W) (n_times W) (length (W_LM W))"
    "rectangular (W_data_dot W) (n_times W) (length (W_LM W))" "modes_contiguous (W_LM W)"
    by (simp_all add: well_formed_def)
  have l: "length (zeros_vec3 (n_times W) :: real vec3 list) = n_times W"
    by (simp add: zeros_vec3_def)
  from u_LdtVector_sums[OF r l] show ?thesis
    unfolding LdtVector_def by (auto simp: zeros_vec3_def)
qed

text \<open>
  Claim C10: \<open>LdtVector\<close> returns a list of real vectors, one per time sample; it is the
  componentwise imaginary part of the complex contraction that \<open>_LVector\<close> accumulates from
  \<open>data\<close> and \<open>data_dot\<close>, both failing together; and on a well-formed series it returns,
  at every time sample, the sums over all modes of \<open>0.5 * (Im L+ + Im L-)\<close>, of
  \<open>-0.5 * (Re L+ - Re L-)\<close> and of \<open>Im Lz\<close>.
\<close>

theorem LdtVector_real_imaginary_part:
  "LdtVector W = map_sum id (map Im_vec3)
       (u_LVector (W_data W) (W_data_dot W) (W_LM W) (zeros_vec3 (n_times W))) \<and>
   (\<forall>Ldt. LdtVector W = Inr Ldt \<longrightarrow> length Ldt = n_times W) \<and>
   (well_formed W \<longrightarrow>
      (\<exists>Ldt. LdtVector W = Inr Ldt \<and>
         (\<forall>i < n_times W.
            v0 (Ldt ! i) = (\<Sum>k<length (W_LM W).
               0.5 * (Im (Lp_value (W_data W) (W_data_dot W) (W_LM W) i k) +
                      Im (Lm_value (W_data W) (W_data_dot W) (W_LM W) i k))) \<and>
            v1 (Ldt ! i) = (\<Sum>k<length (W_LM W).
               - 0.5 * (Re (Lp_value (W_data W) (W_data_dot W) (W_LM W) i k) -
                        Re (Lm_value (W_data W) (W_data_dot W) (W_LM W) i k))) \<and>
            v2 (Ldt ! i) = (\<Sum>k<length (W_LM W).
               Im (Lz_value (W_data W) (W_data_dot W) (W_LM W) i k)))))"
  using LdtVector_as_LVector[of W] LdtVector_length[of W] LdtVector_sums[of W] by blast

lemma mixed_W_well_formed: "well_formed mixed_W"
  by (simp add: well_formed_def mixed_W_def rectangular_def modes_contiguous_def mode_ok_def
      n_times_def upt_3)

lemma LdtVector_mixed: "LdtVector mixed_W = Inr [\<lparr>v0 = 2, v1 = 2, v2 = - 4\<rparr>]"
  by (simp add: LdtVector_def u_LdtVector_def LdtVector_step_def accumulator_defs mixed_W_def upt_3)

lemma LVector_mixed:
  "u_LVector (W_data mixed_W) (W_data_dot mixed_W) (W_LM mixed_W) (zeros_vec3 (n_times mixed_W)) =
     Inr [\<lparr>v0 = 4 + 2 * \<i>, v1 = 2 * \<i>, v2 = - (4 * \<i>)\<rparr>]"
  by (simp add: u_LVector_def LVector_step_def accumulator_defs mixed_W_def upt_3 complex_eq_iff)

text \<open>
  The series with all three modes excited: the terms are \<open>L+ = 2\<i>, 2, 0\<close>,
  \<open>L- = 0, 2\<i>, 6\<close> and \<open>Lz = -\<i>, 0, -3\<i>\<close>; the complex contraction is
  \<open>(4 + 2\<i>, 2\<i>, -4\<i>)\<close> and the vector returned is \<open>(2, 2, -4)\<close>.
\<close>

theorem LdtVector_real_imaginary_part_witness:
  "well_formed mixed_W \<and> n_times mixed_W = 1 \<and>
   LdtVector mixed_W = Inr [\<lparr>v0 = 2, v1 = 2, v2 = - 4\<rparr>] \<and>
   u_LVector (W_data mixed_W) (W_data_dot mixed_W) (W_LM mixed_W) (zeros_vec3 (n_times mixed_W)) =
     Inr [\<lparr>v0 = 4 + 2 * \<i>, v1 = 2 * \<i>, v2 = - (4 * \<i>)\<rparr>] \<and>
   (\<Sum>k<length (W_LM mixed_W).
      0.5 * (Im (Lp_value (W_data mixed_W) (W_data_dot mixed_W) (W_LM mixed_W) 0 k) +
             Im (Lm_value (W_data mixed_W) (W_data_dot mixed_W) (W_LM mixed_W) 0 k))) = 2 \<and>
   (\<Sum>k<length (W_LM mixed_W).
      - 0.5 * (Re (Lp_value (W_data mixed_W) (W_data_dot mixed_W) (W_LM mixed_W) 0 k) -
               Re (Lm_value (W_data mixed_W) (W_data_dot mixed_W) (W_LM mixed_W) 0 k))) = 2 \<and>
   (\<Sum>k<length (W_LM mixed_W).
      Im (Lz_value (W_data mixed_W) (W_data_dot mixed_W) (W_LM mixed_W) 0 k)) = - 4"
proof -
  have n: "n_times mixed_W = 1" by (simp add: n_times_def mixed_W_def)
  from LdtVector_real_imaginary_part[of mixed_W] mixed_W_well_formed
  obtain Ldt where L: "LdtVector mixed_W = Inr Ldt"
    and s: "\<forall>i < n_times mixed_W.
      v0 (Ldt ! i) = (\<Sum>k<length (W_LM mixed_W).
         0.5 * (Im (Lp_value (W_data mixed_W) (W_data_dot mixed_W) (W_LM mixed_W) i k) +
                Im (Lm_value (W_data mixed_W) (W_data_dot mixed_W) (W_LM mixed_W) i k))) \<and>
      v1 (Ldt ! i) = (\<Sum>k<length (W_LM mixed_W).
         - 0.5 * (Re (Lp_value (W_data mixed_W) (W_data_dot mixed_W) (W_LM mixed_W) i k) -
                  Re (Lm_value (W_data mixed_W) (W_data_dot mixed_W) (W_LM mixed_W) i k))) \<and>
      v2 (Ldt ! i) = (\<Sum>k<length (W_LM mixed_W).
         Im (Lz_value (W_data mixed_W) (W_data_dot mixed_W) (W_LM mixed_W) i k))"
    by blast
  have Ldt: "Ldt = [\<lparr>v0 = 2, v1 = 2, v2 = - 4\<rparr>]" using L LdtVector_mixed by simp
  have z: "(0::nat) < n_times mixed_W" using n by simp
  from s[rule_format, OF z] have
    "(\<Sum>k<length (W_LM mixed_W).
         0.5 * (Im (Lp_value (W_data mixed_W) (W_data_dot mixed_W) (W_LM mixed_W) 0 k) +
                Im (Lm_value (W_data mixed_W) (W_data_dot mixed_W) (W_LM mixed_W) 0 k))) = 2"
    "(\<Sum>k<length (W_LM mixed_W).
         - 0.5 * (Re (Lp_value (W_data mixed_W) (W_data_dot mixed_W) (W_LM mixed_W) 0 k) -
                  Re (Lm_value (W_data mixed_W) (W_data_dot mixed_W) (W_LM mixed_W) 0 k))) = 2"
    "(\<Sum>k<length (W_LM mixed_W).
         Im (Lz_value (W_data mixed_W) (W_data_dot mixed_W) (W_LM mixed_W) 0 k)) = - 4"
    unfolding Ldt by simp_all
  then show ?thesis
    by (intro conjI mixed_W_well_formed n LdtVector_mixed LVector_mixed)
qed

section \<open>The comparison of a series with itself, entry by entry\<close>











section \<open>The comparison of a well-formed series with itself\<close>















end
